theory Spec2Isabelle
  imports Main "HOL-Library.Sublist"
begin

section \<open>Python values used by the logger\<close>

text \<open>
  The logger of \<^verbatim>\<open>excalibur_logger.py\<close> passes loosely typed values around: a log
  record is a \<^verbatim>\<open>dict\<close> from field names to arbitrary values. The values that occur
  are modelled by \<open>pyval\<close>. A string is a list of characters, one per code point;
  a dictionary value is an association list in insertion order; \<open>PDateTime\<close> is the
  result of \<^verbatim>\<open>datetime.now()\<close>, read from a clock counting seconds. Floating
  point numbers are not part of the model.
\<close>

datatype pyval =
    PNone
  | PBool bool
  | PInt int
  | PStr string
  | PList "pyval list"
  | PDict "(pyval \<times> pyval) list"
  | PDateTime nat

text \<open>The exceptions (all subclasses of \<^verbatim>\<open>Exception\<close>) that the modelled code can meet.\<close>

datatype exn =
    TypeError
  | ValueError
  | KeyError
  | IndexError
  | AttributeError
  | JSONDecodeError
  | DBAPIError

text \<open>A log record: the \<^verbatim>\<open>dict\<close> handed to \<^verbatim>\<open>log_api_call\<close>; its keys are strings.\<close>

type_synonym log_data = "string \<rightharpoonup> pyval"

text \<open>Truth value testing (\<^verbatim>\<open>if x\<close>, \<^verbatim>\<open>not x\<close>, \<^verbatim>\<open>x or y\<close>).\<close>

fun truthy :: "pyval \<Rightarrow> bool" where
  "truthy PNone = False"
| "truthy (PBool b) = b"
| "truthy (PInt n) = (n \<noteq> 0)"
| "truthy (PStr s) = (s \<noteq> [])"
| "truthy (PList xs) = (xs \<noteq> [])"
| "truthy (PDict kvs) = (kvs \<noteq> [])"
| "truthy (PDateTime t) = True"

text \<open>\<^verbatim>\<open>d.get(k)\<close> and \<^verbatim>\<open>d.get(k, default)\<close> on a log record.\<close>

definition dict_get :: "log_data \<Rightarrow> string \<Rightarrow> pyval" where
  "dict_get d k = (case d k of None \<Rightarrow> PNone | Some v \<Rightarrow> v)"

definition dict_get_default :: "log_data \<Rightarrow> string \<Rightarrow> pyval \<Rightarrow> pyval" where
  "dict_get_default d k dflt = (case d k of None \<Rightarrow> dflt | Some v \<Rightarrow> v)"

text \<open>\<^verbatim>\<open>x or y\<close> evaluates to \<open>x\<close> when \<open>x\<close> is true, else to \<open>y\<close>.\<close>

definition py_or :: "pyval \<Rightarrow> pyval \<Rightarrow> pyval" where
  "py_or x y = (if truthy x then x else y)"

subsection \<open>The builtin \<^verbatim>\<open>int()\<close>\<close>

text \<open>
  \<^verbatim>\<open>int(s)\<close> on a string, as CPython 3.11 computes it with its default settings,
  for strings whose code points are below 256: it strips surrounding whitespace,
  accepts one optional sign and then decimal digits, where single underscores may
  separate digits, and refuses more than 4300 digits. Anything else is a
  \<^verbatim>\<open>ValueError\<close>. The whitespace that \<^verbatim>\<open>int()\<close> strips is the space, the
  characters 0x09 to 0x0D, and the two code points 0x85 and 0xA0; the separators 0x1C
  to 0x1F are not stripped. No code point from 128 to 255 is a decimal digit.
\<close>

definition is_space :: "char \<Rightarrow> bool" where
  "is_space c = (c \<in> set [CHR '' '', CHR 0x09, CHR 0x0A, CHR 0x0B, CHR 0x0C, CHR 0x0D,
                          CHR 0x85, CHR 0xA0])"

definition strip :: "string \<Rightarrow> string" where
  "strip s = rev (dropWhile is_space (rev (dropWhile is_space s)))"

definition is_digit :: "char \<Rightarrow> bool" where
  "is_digit c = (c \<in> set ''0123456789'')"

definition digit_val :: "char \<Rightarrow> int" where
  "digit_val c = int (of_char c) - 48"

text \<open>
  \<open>digits_value prev acc s\<close> reads the digits of \<open>s\<close> into the accumulator;
  \<open>prev\<close> says whether the previous character was a digit, which is where an
  underscore is allowed.
\<close>

fun digits_value :: "bool \<Rightarrow> int \<Rightarrow> string \<Rightarrow> int option" where
  "digits_value prev acc [] = (if prev then Some acc else None)"
| "digits_value prev acc (c # cs) =
     (if is_digit c then digits_value True (10 * acc + digit_val c) cs
      else if c = CHR ''_'' \<and> prev then
        (case cs of [] \<Rightarrow> None
         | d # ds \<Rightarrow> if is_digit d then digits_value False acc cs else None)
      else None)"

definition int_of_str :: "string \<Rightarrow> exn + int" where
  "int_of_str s =
     (let t = strip s;
          (neg, body) = (case t of [] \<Rightarrow> (False, [])
                         | c # cs \<Rightarrow> if c = CHR ''-'' then (True, cs)
                                     else if c = CHR ''+'' then (False, cs)
                                     else (False, t))
      in case digits_value False 0 body of
           None \<Rightarrow> Inl ValueError
         | Some n \<Rightarrow> if length (filter is_digit body) > 4300 then Inl ValueError
                     else Inr (if neg then - n else n))"

fun py_int :: "pyval \<Rightarrow> exn + int" where
  "py_int (PInt n) = Inr n"
| "py_int (PBool b) = Inr (if b then 1 else 0)"
| "py_int (PStr s) = int_of_str s"
| "py_int PNone = Inl TypeError"
| "py_int (PList xs) = Inl TypeError"
| "py_int (PDict kvs) = Inl TypeError"
| "py_int (PDateTime t) = Inl TypeError"


section \<open>The database behind the engine\<close>

text \<open>
  The logger talks to SQL Server through SQLAlchemy. Four lookup tables map a name to
  its generated key; \<open>APICall\<close> is the event table, one bound parameter dictionary
  per inserted row. Names are matched exactly, and \<^verbatim>\<open>fetchone()\<close> yields the
  first matching row.
\<close>

record database =
  HttpMethod :: "(string \<times> int) list"
  ErrorSource :: "(string \<times> int) list"
  Environment :: "(string \<times> int) list"
  FileType :: "(string \<times> int) list"
  APICall :: "log_data list"

text \<open>What the logger prints, one constructor per \<^verbatim>\<open>print\<close> of the source.\<close>

datatype log_line =
    Thread_started
  | Error_processing_log exn
  | Database_insert_error exn
  | Warning_HttpMethod_not_found pyval
  | Error_getting_HttpMethodID pyval exn
  | Error_converting_status_code pyval exn
  | Error_getting_ErrorSourceID pyval exn
  | Warning_Environment_not_found pyval
  | Error_getting_EnvironmentID pyval exn
  | Error_getting_FileTypeID pyval exn
  | Shutting_down
  | Shutdown_complete

text \<open>
  Everything outside the process that the worker thread touches: \<open>db\<close> is the
  committed database, \<open>txn\<close> the view of the open connection (committed rows and the
  rows of its own uncommitted transaction), \<open>out\<close> the printed lines and \<open>clock\<close>
  the time in seconds. Any call into the database can fail (connectivity, a constraint,
  a timeout): \<open>faults\<close> is the schedule of those failures, one flag for each
  coming database call, \<open>True\<close> meaning that the call raises. An exhausted schedule
  means that no further call fails.
\<close>

record world =
  db :: database
  txn :: database
  faults :: "bool list"
  out :: "log_line list"
  clock :: nat

text \<open>
  A statement of the source runs in a world and either returns a value or raises; the
  world it leaves behind is kept in both cases.
\<close>

type_synonym 'a io = "world \<Rightarrow> (exn + 'a) \<times> world"

definition return :: "'a \<Rightarrow> 'a io" where
  "return x w = (Inr x, w)"

definition raise :: "exn \<Rightarrow> 'a io" where
  "raise e w = (Inl e, w)"

definition and_then :: "'a io \<Rightarrow> ('a \<Rightarrow> 'b io) \<Rightarrow> 'b io" where
  "and_then m f w = (case m w of (Inl e, w') \<Rightarrow> (Inl e, w') | (Inr x, w') \<Rightarrow> f x w')"

definition print :: "log_line \<Rightarrow> unit io" where
  "print l w = (Inr (), w\<lparr>out := out w @ [l]\<rparr>)"

text \<open>\<^verbatim>\<open>datetime.now()\<close>\<close>

definition now :: "pyval io" where
  "now w = (Inr (PDateTime (clock w)), w)"

text \<open>One round trip to the database: it takes the next flag of the fault schedule.\<close>

definition db_call :: "unit io" where
  "db_call w =
     (case faults w of
        [] \<Rightarrow> (Inr (), w)
      | f # fs \<Rightarrow> (if f then Inl DBAPIError else Inr (), w\<lparr>faults := fs\<rparr>))"

text \<open>
  \<^verbatim>\<open>conn.execute(text("SELECT id FROM tbl WHERE name = :p"), {'p': v}).fetchone()\<close>:
  the key of the first row named \<open>v\<close>, or nothing. The name columns hold strings; a
  bound parameter that is not a string makes the statement fail.
\<close>

definition select_id :: "(database \<Rightarrow> (string \<times> int) list) \<Rightarrow> pyval \<Rightarrow> int option io" where
  "select_id tbl v =
     and_then db_call (\<lambda>_. case v of
        PStr s \<Rightarrow> (\<lambda>w. (Inr (map_of (tbl (txn w)) s), w))
      | _ \<Rightarrow> raise DBAPIError)"

text \<open>The key the database generates for a new row of a lookup table.\<close>

definition fresh_id :: "(string \<times> int) list \<Rightarrow> int" where
  "fresh_id rows = (if rows = [] then 1 else Max (set (map snd rows)) + 1)"

text \<open>\<^verbatim>\<open>conn.execute(text("INSERT INTO ErrorSource (ErrorSourceName) VALUES (:source)"), ...)\<close>\<close>

definition insert_ErrorSource :: "pyval \<Rightarrow> unit io" where
  "insert_ErrorSource v =
     and_then db_call (\<lambda>_. case v of
        PStr s \<Rightarrow> (\<lambda>w. (Inr (),
           w\<lparr>txn := (txn w)\<lparr>ErrorSource := ErrorSource (txn w) @ [(s, fresh_id (ErrorSource (txn w)))]\<rparr>\<rparr>))
      | _ \<Rightarrow> raise DBAPIError)"

text \<open>\<^verbatim>\<open>conn.execute(text("INSERT INTO FileType (FileTypeName) VALUES (:type)"), ...)\<close>\<close>

definition insert_FileType :: "pyval \<Rightarrow> unit io" where
  "insert_FileType v =
     and_then db_call (\<lambda>_. case v of
        PStr s \<Rightarrow> (\<lambda>w. (Inr (),
           w\<lparr>txn := (txn w)\<lparr>FileType := FileType (txn w) @ [(s, fresh_id (FileType (txn w)))]\<rparr>\<rparr>))
      | _ \<Rightarrow> raise DBAPIError)"

text \<open>\<^verbatim>\<open>conn.execute(sql, params)\<close> of the event table.\<close>

definition insert_APICall :: "log_data \<Rightarrow> unit io" where
  "insert_APICall params =
     and_then db_call (\<lambda>_ w. (Inr (), w\<lparr>txn := (txn w)\<lparr>APICall := APICall (txn w) @ [params]\<rparr>\<rparr>))"

text \<open>\<^verbatim>\<open>conn.commit()\<close>\<close>

definition commit :: "unit io" where
  "commit = and_then db_call (\<lambda>_ w. (Inr (), w\<lparr>db := txn w\<rparr>))"

text \<open>
  \<^verbatim>\<open>with self.engine.connect() as conn: body\<close>. Opening the connection is a database
  call; leaving the block, normally or by an exception, closes the connection, which
  rolls back what was not committed.
\<close>

definition with_connection :: "'a io \<Rightarrow> 'a io" where
  "with_connection body w =
     (case db_call w of
        (Inl e, w') \<Rightarrow> (Inl e, w')
      | (Inr _, w') \<Rightarrow>
          (case body (w'\<lparr>txn := db w'\<rparr>) of (r, w'') \<Rightarrow> (r, w''\<lparr>txn := db w''\<rparr>)))"

section \<open>The lookup resolvers\<close>

text \<open>
  Each resolver of the source is a guard, a \<^verbatim>\<open>try\<close> body and an
  \<^verbatim>\<open>except Exception\<close> handler. The body is a definition of its own (suffix
  \<open>_try\<close>), so that what the handler does with an exception of the body can be
  stated. The methods of the source start with an underscore, which an Isabelle name
  cannot; \<open>get_http_method_id\<close> is \<^verbatim>\<open>_get_http_method_id\<close>, and so on.
\<close>

definition get_http_method_id_try :: "pyval \<Rightarrow> int option io" where
  "get_http_method_id_try http_method =
     and_then (select_id HttpMethod http_method) (\<lambda>result.
       case result of
         Some i \<Rightarrow> return (Some i)
       | None \<Rightarrow> and_then (print (Warning_HttpMethod_not_found http_method)) (\<lambda>_. return None))"

definition get_http_method_id :: "pyval \<Rightarrow> int option io" where
  "get_http_method_id http_method w =
     (if \<not> truthy http_method then (Inr None, w)
      else case get_http_method_id_try http_method w of
             (Inl e, w') \<Rightarrow>
               and_then (print (Error_getting_HttpMethodID http_method e)) (\<lambda>_. return None) w'
           | (Inr r, w') \<Rightarrow> (Inr r, w'))"

text \<open>
  The builtin \<^verbatim>\<open>int()\<close> is not part of the repository, and what it accepts depends
  on the interpreter. The status code resolver is therefore written with the builtin as
  a parameter \<open>int_fn\<close>; the logger is the resolver at \<open>py_int\<close>, the model of the
  builtin given above.
\<close>

definition get_http_status_code_id_try_with ::
  "(pyval \<Rightarrow> exn + int) \<Rightarrow> pyval \<Rightarrow> int option io" where
  "get_http_status_code_id_try_with int_fn status_code =
     (case int_fn status_code of Inl e \<Rightarrow> raise e | Inr n \<Rightarrow> return (Some n))"

definition get_http_status_code_id_with ::
  "(pyval \<Rightarrow> exn + int) \<Rightarrow> pyval \<Rightarrow> int option io" where
  "get_http_status_code_id_with int_fn status_code w =
     (if \<not> truthy status_code then (Inr None, w)
      else case get_http_status_code_id_try_with int_fn status_code w of
             (Inl e, w') \<Rightarrow>
               and_then (print (Error_converting_status_code status_code e)) (\<lambda>_. return None) w'
           | (Inr r, w') \<Rightarrow> (Inr r, w'))"

definition get_http_status_code_id_try :: "pyval \<Rightarrow> int option io" where
  "get_http_status_code_id_try = get_http_status_code_id_try_with py_int"

definition get_http_status_code_id :: "pyval \<Rightarrow> int option io" where
  "get_http_status_code_id = get_http_status_code_id_with py_int"

definition get_error_source_id_try :: "pyval \<Rightarrow> int option io" where
  "get_error_source_id_try error_source =
     and_then (select_id ErrorSource error_source) (\<lambda>result.
       case result of
         Some i \<Rightarrow> return (Some i)
       | None \<Rightarrow>
           and_then (insert_ErrorSource error_source) (\<lambda>_.
           and_then commit (\<lambda>_.
           select_id ErrorSource error_source)))"

definition get_error_source_id :: "pyval \<Rightarrow> int option io" where
  "get_error_source_id error_source w =
     (if \<not> truthy error_source then (Inr None, w)
      else case get_error_source_id_try error_source w of
             (Inl e, w') \<Rightarrow>
               and_then (print (Error_getting_ErrorSourceID error_source e)) (\<lambda>_. return None) w'
           | (Inr r, w') \<Rightarrow> (Inr r, w'))"

definition get_environment_id_try :: "pyval \<Rightarrow> int option io" where
  "get_environment_id_try environment =
     and_then (select_id Environment environment) (\<lambda>result.
       case result of
         Some i \<Rightarrow> return (Some i)
       | None \<Rightarrow>
           and_then
             (if environment = PStr ''Dev''
              then select_id Environment (PStr ''Development'')
              else return None) (\<lambda>result.
           case result of
             Some i \<Rightarrow> return (Some i)
           | None \<Rightarrow>
               and_then (print (Warning_Environment_not_found environment)) (\<lambda>_. return None)))"

definition get_environment_id :: "pyval \<Rightarrow> int option io" where
  "get_environment_id environment0 w =
     (let environment = (if \<not> truthy environment0 then PStr ''Dev'' else environment0)
      in case get_environment_id_try environment w of
           (Inl e, w') \<Rightarrow>
             and_then (print (Error_getting_EnvironmentID environment e)) (\<lambda>_. return None) w'
         | (Inr r, w') \<Rightarrow> (Inr r, w'))"

definition get_file_type_id_try :: "pyval \<Rightarrow> int option io" where
  "get_file_type_id_try file_type =
     and_then (select_id FileType file_type) (\<lambda>result.
       case result of
         Some i \<Rightarrow> return (Some i)
       | None \<Rightarrow>
           and_then (insert_FileType file_type) (\<lambda>_.
           and_then commit (\<lambda>_.
           select_id FileType file_type)))"

definition get_file_type_id :: "pyval \<Rightarrow> int option io" where
  "get_file_type_id file_type w =
     (if \<not> truthy file_type then (Inr None, w)
      else case get_file_type_id_try file_type w of
             (Inl e, w') \<Rightarrow>
               and_then (print (Error_getting_FileTypeID file_type e)) (\<lambda>_. return None) w'
           | (Inr r, w') \<Rightarrow> (Inr r, w'))"

section \<open>The record writer\<close>

text \<open>\<^verbatim>\<open>x[:n]\<close>: strings and lists can be sliced, the other values raise.\<close>

fun py_slice_to :: "nat \<Rightarrow> pyval \<Rightarrow> exn + pyval" where
  "py_slice_to n (PStr s) = Inr (PStr (take n s))"
| "py_slice_to n (PList xs) = Inr (PList (take n xs))"
| "py_slice_to n PNone = Inl TypeError"
| "py_slice_to n (PBool b) = Inl TypeError"
| "py_slice_to n (PInt i) = Inl TypeError"
| "py_slice_to n (PDict kvs) = Inl TypeError"
| "py_slice_to n (PDateTime t) = Inl TypeError"

text \<open>A key read from the database, as a Python value.\<close>

definition of_id :: "int option \<Rightarrow> pyval" where
  "of_id r = (case r of None \<Rightarrow> PNone | Some i \<Rightarrow> PInt i)"

text \<open>
  The first half of \<^verbatim>\<open>_insert_log\<close>, inside the connection: the five lookups, the two
  defaults and the dictionary \<^verbatim>\<open>params\<close>.
\<close>

definition insert_log_params :: "log_data \<Rightarrow> log_data io" where
  "insert_log_params log_data =
     and_then (get_http_method_id (dict_get_default log_data ''http_method'' (PStr ''POST'')))
       (\<lambda>http_method_id.
     and_then (get_http_status_code_id (dict_get log_data ''http_status_code''))
       (\<lambda>http_status_code_id.
     and_then (get_error_source_id (dict_get log_data ''error_source''))
       (\<lambda>error_source_id0.
     and_then (get_environment_id (dict_get_default log_data ''environment'' (PStr ''Dev'')))
       (\<lambda>environment_id.
     and_then (get_file_type_id (dict_get log_data ''file_type''))
       (\<lambda>file_type_id0.
     let error_source_id = (if error_source_id0 = None then Some 5 else error_source_id0);
         file_type_id = (if file_type_id0 = None then Some 49 else file_type_id0)
     in
     and_then
       (if truthy (dict_get log_data ''exception_message'')
        then (case py_slice_to 500 (dict_get_default log_data ''exception_message'' (PStr []))
              of Inl e \<Rightarrow> raise e | Inr v \<Rightarrow> return v)
        else return PNone)
       (\<lambda>exception_message.
     and_then now
       (\<lambda>t.
     return
       [''endpoint'' \<mapsto> dict_get log_data ''api_endpoint'',
        ''http_method_id'' \<mapsto> of_id http_method_id,
        ''client_phone_number'' \<mapsto>
            py_or (dict_get log_data ''client_id'') (dict_get log_data ''client_phone_number''),
        ''debtor_phone_number'' \<mapsto>
            py_or (dict_get log_data ''phone_number'') (dict_get log_data ''debtor_phone_number''),
        ''http_status_code_id'' \<mapsto> of_id http_status_code_id,
        ''response_time'' \<mapsto> dict_get log_data ''response_time'',
        ''is_success'' \<mapsto> PInt (if truthy (dict_get log_data ''is_success'') then 1 else 0),
        ''error_source_id'' \<mapsto> of_id error_source_id,
        ''exception_message'' \<mapsto> exception_message,
        ''retry_count'' \<mapsto> dict_get_default log_data ''retry_count'' (PInt 0),
        ''environment_id'' \<mapsto> of_id environment_id,
        ''matter_id'' \<mapsto> dict_get log_data ''matter_id'',
        ''file_name'' \<mapsto> dict_get log_data ''file_name'',
        ''file_type_id'' \<mapsto> of_id file_type_id,
        ''date_created'' \<mapsto> dict_get_default log_data ''created_at'' t])))))))"

text \<open>The body of the \<^verbatim>\<open>with\<close> block: build the parameters, execute, commit.\<close>

definition insert_log_try :: "log_data \<Rightarrow> unit io" where
  "insert_log_try log_data =
     and_then (insert_log_params log_data) (\<lambda>params.
     and_then (insert_APICall params) (\<lambda>_. commit))"

text \<open>\<^verbatim>\<open>_insert_log\<close>: any exception of the block is printed and the record is dropped.\<close>

definition insert_log :: "log_data \<Rightarrow> unit io" where
  "insert_log log_data w =
     (case with_connection (insert_log_try log_data) w of
        (Inl e, w') \<Rightarrow> print (Database_insert_error e) w'
      | (Inr u, w') \<Rightarrow> (Inr u, w'))"

section \<open>A sample database\<close>

text \<open>
  The lookup tables as the comments of the source describe them: the four methods
  with keys 1 to 4, the error source and file type \<^verbatim>\<open>N/A\<close> with keys 5 and 49. The
  environment table holds the long names only.
\<close>

definition sample_db :: database where
  "sample_db =
     \<lparr>HttpMethod = [(''POST'', 1), (''GET'', 2), (''PUT'', 3), (''DELETE'', 4)],
      ErrorSource = [(''N/A'', 5)],
      Environment = [(''Development'', 1), (''Production'', 2)],
      FileType = [(''N/A'', 49)],
      APICall = []\<rparr>"

definition sample_world :: "bool list \<Rightarrow> world" where
  "sample_world fs = \<lparr>db = sample_db, txn = sample_db, faults = fs, out = [], clock = 0\<rparr>"

section \<open>The logger, its queue and its worker thread\<close>

text \<open>
  Where the worker thread stands in \<^verbatim>\<open>_process_logs\<close>: before the test of the
  \<^verbatim>\<open>while\<close> loop, inside \<^verbatim>\<open>log_queue.get(timeout=1)\<close> with the time at which
  the wait gives up, before \<^verbatim>\<open>_insert_log(log_data)\<close>, before
  \<^verbatim>\<open>log_queue.task_done()\<close>, or past the loop, when the thread has ended.
\<close>

datatype worker_pc =
    W_while
  | W_get nat
  | W_insert log_data
  | W_task_done log_data
  | W_exited

text \<open>
  Where the caller of \<^verbatim>\<open>shutdown()\<close> stands: not yet called, inside
  \<^verbatim>\<open>log_queue.join()\<close>, before \<^verbatim>\<open>self.is_running = False\<close>, inside
  \<^verbatim>\<open>worker_thread.join(timeout=5)\<close> with the time at which the wait gives up, or
  returned.
\<close>

datatype shutdown_pc =
    S_not_called
  | S_queue_join
  | S_set_flag
  | S_thread_join nat
  | S_returned

text \<open>
  The process after \<^verbatim>\<open>get_api_logger()\<close> has built the singleton. \<open>log_queue\<close> and
  \<open>unfinished_tasks\<close> are the two parts of \<^verbatim>\<open>queue.Queue\<close> that the source relies
  on: the waiting items, and the count of items put and not yet marked done, which
  \<^verbatim>\<open>join()\<close> waits for. The last three fields record history and occur in no
  decision: every record put so far, every record marked done so far, and the records
  that had been put when \<^verbatim>\<open>shutdown()\<close> was called.
\<close>

record state =
  ext :: world
  is_running :: bool
  log_queue :: "log_data list"
  unfinished_tasks :: nat
  worker :: worker_pc
  shutdown_at :: shutdown_pc
  submitted :: "log_data list"
  completed :: "log_data list"
  at_shutdown :: "log_data list"

text \<open>\<^verbatim>\<open>ExcaliburAPILogger.__init__\<close>: the flag is set, the queue is empty, the thread starts.\<close>

definition init :: "world \<Rightarrow> state" where
  "init w =
     \<lparr>ext = w\<lparr>out := out w @ [Thread_started]\<rparr>,
      is_running = True,
      log_queue = [],
      unfinished_tasks = 0,
      worker = W_while,
      shutdown_at = S_not_called,
      submitted = [],
      completed = [],
      at_shutdown = []\<rparr>"

text \<open>\<^verbatim>\<open>log_api_call\<close>: stamp the record unless it has a time, and put it on the queue.\<close>

definition log_api_call :: "log_data \<Rightarrow> state \<Rightarrow> state" where
  "log_api_call log_data0 s =
     (let log_data = (if ''created_at'' \<notin> dom log_data0
                      then log_data0(''created_at'' \<mapsto> PDateTime (clock (ext s)))
                      else log_data0)
      in s\<lparr>log_queue := log_queue s @ [log_data],
           unfinished_tasks := unfinished_tasks s + 1,
           submitted := submitted s @ [log_data]\<rparr>)"

text \<open>
  One step of the worker thread. A step that cannot be taken yet (the thread waits)
  is \<open>None\<close>.
\<close>

definition worker_step :: "state \<Rightarrow> state option" where
  "worker_step s =
     (case worker s of
        W_while \<Rightarrow>
          Some (if is_running s then s\<lparr>worker := W_get (clock (ext s) + 1)\<rparr>
                else s\<lparr>worker := W_exited\<rparr>)
      | W_get deadline \<Rightarrow>
          (case log_queue s of
             log_data # rest \<Rightarrow> Some (s\<lparr>log_queue := rest, worker := W_insert log_data\<rparr>)
           | [] \<Rightarrow> if deadline \<le> clock (ext s) then Some (s\<lparr>worker := W_while\<rparr>) else None)
      | W_insert log_data \<Rightarrow>
          (case insert_log log_data (ext s) of
             (Inr _, w') \<Rightarrow> Some (s\<lparr>ext := w', worker := W_task_done log_data\<rparr>)
           | (Inl e, w') \<Rightarrow>
               Some (s\<lparr>ext := w'\<lparr>out := out w' @ [Error_processing_log e]\<rparr>, worker := W_while\<rparr>))
      | W_task_done log_data \<Rightarrow>
          (if unfinished_tasks s = 0
           then Some (s\<lparr>ext := (ext s)\<lparr>out := out (ext s) @ [Error_processing_log ValueError]\<rparr>,
                        worker := W_while\<rparr>)
           else Some (s\<lparr>unfinished_tasks := unfinished_tasks s - 1,
                        completed := completed s @ [log_data],
                        worker := W_while\<rparr>))
      | W_exited \<Rightarrow> None)"

definition worker_exited :: "state \<Rightarrow> bool" where
  "worker_exited s = (case worker s of W_exited \<Rightarrow> True | _ \<Rightarrow> False)"

text \<open>One step of the thread that calls \<^verbatim>\<open>shutdown()\<close>.\<close>

definition shutdown_step :: "state \<Rightarrow> state option" where
  "shutdown_step s =
     (case shutdown_at s of
        S_not_called \<Rightarrow>
          Some (s\<lparr>ext := (ext s)\<lparr>out := out (ext s) @ [Shutting_down]\<rparr>,
                  shutdown_at := S_queue_join,
                  at_shutdown := submitted s\<rparr>)
      | S_queue_join \<Rightarrow>
          (if unfinished_tasks s = 0 then Some (s\<lparr>shutdown_at := S_set_flag\<rparr>) else None)
      | S_set_flag \<Rightarrow>
          Some (s\<lparr>is_running := False, shutdown_at := S_thread_join (clock (ext s) + 5)\<rparr>)
      | S_thread_join deadline \<Rightarrow>
          (if worker_exited s \<or> deadline \<le> clock (ext s)
           then Some (s\<lparr>ext := (ext s)\<lparr>out := out (ext s) @ [Shutdown_complete]\<rparr>,
                        shutdown_at := S_returned\<rparr>)
           else None)
      | S_returned \<Rightarrow> None)"

text \<open>
  The threads interleave. A schedule is a list of events: a producer submits a record,
  the worker or the caller of \<^verbatim>\<open>shutdown()\<close> takes a step, or a second passes.
\<close>

datatype event = Submit log_data | Worker | Shutdown | Tick

fun step :: "event \<Rightarrow> state \<Rightarrow> state option" where
  "step (Submit log_data) s = Some (log_api_call log_data s)"
| "step Worker s = worker_step s"
| "step Shutdown s = shutdown_step s"
| "step Tick s = Some (s\<lparr>ext := (ext s)\<lparr>clock := clock (ext s) + 1\<rparr>\<rparr>)"

fun run :: "event list \<Rightarrow> state \<Rightarrow> state option" where
  "run [] s = Some s"
| "run (e # es) s = (case step e s of None \<Rightarrow> None | Some s' \<Rightarrow> run es s')"

text \<open>The record, if any, that the worker has taken from the queue and not yet marked done.\<close>

fun in_flight :: "worker_pc \<Rightarrow> log_data list" where
  "in_flight (W_insert log_data) = [log_data]"
| "in_flight (W_task_done log_data) = [log_data]"
| "in_flight _ = []"

definition past_queue_join :: "shutdown_pc \<Rightarrow> bool" where
  "past_queue_join pc =
     (case pc of S_set_flag \<Rightarrow> True | S_thread_join _ \<Rightarrow> True | S_returned \<Rightarrow> True | _ \<Rightarrow> False)"

definition past_set_flag :: "shutdown_pc \<Rightarrow> bool" where
  "past_set_flag pc = (case pc of S_thread_join _ \<Rightarrow> True | S_returned \<Rightarrow> True | _ \<Rightarrow> False)"

section \<open>The two record builders\<close>

text \<open>
  The operations on loosely typed values that the builders use. A Python dictionary has
  no two equal keys, so the first binding of a key in the association list is the
  only one.
\<close>

text \<open>\<^verbatim>\<open>len(x)\<close>\<close>

fun py_len :: "pyval \<Rightarrow> exn + nat" where
  "py_len (PStr s) = Inr (length s)"
| "py_len (PList xs) = Inr (length xs)"
| "py_len (PDict kvs) = Inr (length kvs)"
| "py_len PNone = Inl TypeError"
| "py_len (PBool b) = Inl TypeError"
| "py_len (PInt i) = Inl TypeError"
| "py_len (PDateTime t) = Inl TypeError"

text \<open>\<^verbatim>\<open>x + '...'\<close>: only a string can be extended by a string.\<close>

fun py_add_str :: "pyval \<Rightarrow> string \<Rightarrow> exn + pyval" where
  "py_add_str (PStr s) t = Inr (PStr (s @ t))"
| "py_add_str _ t = Inl TypeError"

text \<open>
  \<^verbatim>\<open>'key' in x\<close>: a key of a dictionary, an element of a list, a substring of a
  string; the other values are not containers.
\<close>

fun py_contains :: "string \<Rightarrow> pyval \<Rightarrow> exn + bool" where
  "py_contains k (PDict kvs) = Inr (PStr k \<in> set (map fst kvs))"
| "py_contains k (PList xs) = Inr (PStr k \<in> set xs)"
| "py_contains k (PStr s) = Inr (sublist k s)"
| "py_contains k PNone = Inl TypeError"
| "py_contains k (PBool b) = Inl TypeError"
| "py_contains k (PInt i) = Inl TypeError"
| "py_contains k (PDateTime t) = Inl TypeError"

text \<open>\<^verbatim>\<open>x['key']\<close>: only a dictionary can be indexed by a string.\<close>

fun py_getitem :: "pyval \<Rightarrow> string \<Rightarrow> exn + pyval" where
  "py_getitem (PDict kvs) k =
     (case map_of kvs (PStr k) of None \<Rightarrow> Inl KeyError | Some v \<Rightarrow> Inr v)"
| "py_getitem _ k = Inl TypeError"

text \<open>
  \<^verbatim>\<open>x[0]\<close>: the first element of a list, the first character of a string, the value
  of a dictionary at a key equal to 0 (\<^verbatim>\<open>0\<close> or \<^verbatim>\<open>False\<close>).
\<close>

fun py_getitem_0 :: "pyval \<Rightarrow> exn + pyval" where
  "py_getitem_0 (PList xs) = (case xs of [] \<Rightarrow> Inl IndexError | x # _ \<Rightarrow> Inr x)"
| "py_getitem_0 (PStr s) = (case s of [] \<Rightarrow> Inl IndexError | c # _ \<Rightarrow> Inr (PStr [c]))"
| "py_getitem_0 (PDict kvs) =
     (case find (\<lambda>(k, v). k = PInt 0 \<or> k = PBool False) kvs of
        None \<Rightarrow> Inl KeyError
      | Some (k, v) \<Rightarrow> Inr v)"
| "py_getitem_0 _ = Inl TypeError"

text \<open>\<^verbatim>\<open>x.get('key', default)\<close>: only a dictionary has the method.\<close>

fun py_get :: "pyval \<Rightarrow> string \<Rightarrow> pyval \<Rightarrow> exn + pyval" where
  "py_get (PDict kvs) k dflt = Inr (case map_of kvs (PStr k) of None \<Rightarrow> dflt | Some v \<Rightarrow> v)"
| "py_get _ k dflt = Inl AttributeError"

text \<open>\<^verbatim>\<open>x == n\<close> for an integer \<open>n\<close>: \<^verbatim>\<open>True\<close> and \<^verbatim>\<open>False\<close> count as 1 and 0.\<close>

fun py_eq_int :: "pyval \<Rightarrow> int \<Rightarrow> bool" where
  "py_eq_int (PInt i) n = (i = n)"
| "py_eq_int (PBool b) n = ((if b then 1 else 0) = n)"
| "py_eq_int _ n = False"

fun is_dict :: "pyval \<Rightarrow> bool" where
  "is_dict (PDict kvs) = True"
| "is_dict _ = False"

text \<open>Sequencing of computations that may raise and have no effect.\<close>

definition bind_exn :: "exn + 'a \<Rightarrow> ('a \<Rightarrow> exn + 'b) \<Rightarrow> exn + 'b" where
  "bind_exn m f = (case m of Inl e \<Rightarrow> Inl e | Inr x \<Rightarrow> f x)"

text \<open>
  The module \<^verbatim>\<open>json\<close> is not part of the repository. The builders take its two
  functions as parameters: \<open>dumps\<close> serialises a value to text or raises,
  \<open>loads\<close> parses text to a value or raises. Every property below holds for all
  such functions.
\<close>

type_synonym json_dumps = "pyval \<Rightarrow> exn + string"
type_synonym json_loads = "string \<Rightarrow> exn + pyval"

text \<open>
  The payload part of \<^verbatim>\<open>log_excalibur_request\<close> (\<^verbatim>\<open>if request_payload: ...\<close>): the
  fields it adds to the record.
\<close>

definition request_payload_fields :: "json_dumps \<Rightarrow> pyval \<Rightarrow> exn + log_data" where
  "request_payload_fields dumps request_payload0 =
     (if truthy request_payload0 then
        bind_exn (if is_dict request_payload0
                  then bind_exn (dumps request_payload0) (\<lambda>s. Inr (PStr s))
                  else Inr request_payload0) (\<lambda>request_payload.
        bind_exn (py_len request_payload) (\<lambda>n.
        bind_exn (if n > 100000
                  then bind_exn (py_slice_to 100000 request_payload)
                         (\<lambda>head. py_add_str head ''... [truncated]'')
                  else Inr request_payload) (\<lambda>stored.
        Inr [''request_payload_size'' \<mapsto> PInt (int n), ''request_payload'' \<mapsto> stored])))
      else Inr Map.empty)"

text \<open>
  \<^verbatim>\<open>log_excalibur_request\<close>. The keyword arguments \<^verbatim>\<open>**kwargs\<close> are a dictionary
  that Python keeps free of the names of the declared parameters.
\<close>

definition log_excalibur_request ::
  "json_dumps \<Rightarrow> pyval \<Rightarrow> pyval \<Rightarrow> pyval \<Rightarrow> pyval \<Rightarrow> pyval \<Rightarrow> pyval \<Rightarrow> pyval \<Rightarrow> pyval \<Rightarrow> pyval
     \<Rightarrow> log_data \<Rightarrow> state \<Rightarrow> (exn + unit) \<times> state" where
  "log_excalibur_request dumps api_endpoint client_id matter_id phone_number request_payload
       file_name file_type document_type session_id kwargs s =
     (let log_data =
            [''api_endpoint'' \<mapsto> api_endpoint,
             ''http_method'' \<mapsto> dict_get_default kwargs ''http_method'' (PStr ''POST''),
             ''client_id'' \<mapsto> client_id,
             ''matter_id'' \<mapsto> matter_id,
             ''phone_number'' \<mapsto> phone_number,
             ''session_id'' \<mapsto> session_id,
             ''request_start_time'' \<mapsto> PDateTime (clock (ext s)),
             ''file_uploaded'' \<mapsto> PBool (file_name \<noteq> PNone),
             ''file_name'' \<mapsto> file_name,
             ''file_type'' \<mapsto> file_type,
             ''document_type'' \<mapsto> document_type]
      in case request_payload_fields dumps request_payload of
           Inl e \<Rightarrow> (Inl e, s)
         | Inr extra \<Rightarrow> (Inr (), log_api_call ((log_data ++ extra) ++ kwargs) s))"

text \<open>
  The body of the \<^verbatim>\<open>try\<close> block of \<^verbatim>\<open>log_excalibur_response\<close>: the new values of
  \<^verbatim>\<open>response_message\<close>, \<^verbatim>\<open>exception_thrown\<close> and \<^verbatim>\<open>exception_message\<close>. An
  exception leaves the three variables as they were, since the first of the three
  assignments of the second branch fails if any does.
\<close>

definition extract_footer :: "pyval \<Rightarrow> pyval \<Rightarrow> pyval \<Rightarrow> exn + pyval \<times> pyval \<times> pyval" where
  "extract_footer response_json exception_thrown exception_message =
     bind_exn (py_contains ''EnvelopeFooter'' response_json) (\<lambda>has_footer.
       if has_footer then
         bind_exn (py_getitem response_json ''EnvelopeFooter'') (\<lambda>footer.
         bind_exn (py_get footer ''ResponseMessage'' PNone) (\<lambda>response_message.
         bind_exn (py_get footer ''ExceptionThrown'' (PBool False)) (\<lambda>thrown.
         bind_exn (py_get footer ''ExceptionMessage'' PNone) (\<lambda>message.
         Inr (response_message, thrown, message)))))
       else Inr (PNone, exception_thrown, exception_message))"

definition extract_message_try ::
  "json_loads \<Rightarrow> pyval \<Rightarrow> pyval \<Rightarrow> pyval \<Rightarrow> exn + pyval \<times> pyval \<times> pyval" where
  "extract_message_try loads response_payload exception_thrown exception_message =
     bind_exn (case response_payload of PStr s \<Rightarrow> loads s | _ \<Rightarrow> Inr response_payload)
       (\<lambda>response_json.
     bind_exn (py_contains ''EnvelopeBody'' response_json) (\<lambda>has_body.
     bind_exn (if has_body
               then bind_exn (py_getitem response_json ''EnvelopeBody'') (\<lambda>body.
                    bind_exn (py_len body) (\<lambda>n. Inr (n > 0)))
               else Inr False) (\<lambda>use_body.
       if use_body then
         bind_exn (py_getitem response_json ''EnvelopeBody'') (\<lambda>body.
         bind_exn (py_getitem_0 body) (\<lambda>first.
         bind_exn (py_get first ''ResultMessage'' PNone) (\<lambda>response_message.
         Inr (response_message, exception_thrown, exception_message))))
       else extract_footer response_json exception_thrown exception_message)))"

text \<open>
  The extraction with its bare \<^verbatim>\<open>except: pass\<close>: the three variables after the
  block.
\<close>

definition extract_message :: "json_loads \<Rightarrow> pyval \<Rightarrow> pyval \<Rightarrow> pyval \<Rightarrow> pyval \<times> pyval \<times> pyval" where
  "extract_message loads response_payload exception_thrown exception_message =
     (if truthy response_payload then
        (case extract_message_try loads response_payload exception_thrown exception_message of
           Inl e \<Rightarrow> (PNone, exception_thrown, exception_message)
         | Inr r \<Rightarrow> r)
      else (PNone, exception_thrown, exception_message))"

text \<open>\<^verbatim>\<open>log_excalibur_response\<close>\<close>

definition log_excalibur_response ::
  "json_loads \<Rightarrow> json_dumps \<Rightarrow> pyval \<Rightarrow> pyval \<Rightarrow> pyval \<Rightarrow> pyval \<Rightarrow> pyval \<Rightarrow> pyval \<Rightarrow> pyval
     \<Rightarrow> pyval \<Rightarrow> pyval \<Rightarrow> pyval \<Rightarrow> pyval \<Rightarrow> log_data \<Rightarrow> state \<Rightarrow> (exn + unit) \<times> state" where
  "log_excalibur_response loads dumps api_endpoint client_id http_status_code response_time
       response_payload is_success0 exception_thrown0 exception_message0 error_source
       ssl_verified retry_count kwargs s =
     (case extract_message loads response_payload exception_thrown0 exception_message0 of
        (response_message, exception_thrown, exception_message) \<Rightarrow>
     let is_success = (if is_success0 = PNone
                       then PBool (py_eq_int http_status_code 200 \<and> \<not> truthy exception_thrown)
                       else is_success0);
         log_data =
            [''api_endpoint'' \<mapsto> api_endpoint,
             ''client_id'' \<mapsto> client_id,
             ''http_status_code'' \<mapsto> http_status_code,
             ''response_time'' \<mapsto> response_time,
             ''response_message'' \<mapsto> response_message,
             ''is_success'' \<mapsto> is_success,
             ''exception_thrown'' \<mapsto> exception_thrown,
             ''exception_message'' \<mapsto> exception_message,
             ''error_source'' \<mapsto> error_source,
             ''ssl_verified'' \<mapsto> ssl_verified,
             ''retry_count'' \<mapsto> retry_count,
             ''request_end_time'' \<mapsto> PDateTime (clock (ext s))]
     in case (if truthy response_payload
              then bind_exn (if is_dict response_payload
                             then bind_exn (dumps response_payload) (\<lambda>t. Inr (PStr t))
                             else Inr response_payload)
                     (\<lambda>stored. Inr [''response_payload'' \<mapsto> stored])
              else Inr Map.empty) of
          Inl e \<Rightarrow> (Inl e, s)
        | Inr extra \<Rightarrow> (Inr (), log_api_call ((log_data ++ extra) ++ kwargs) s))"

section \<open>Auxiliary notions for the proofs\<close>

text \<open>
  What the lookups of one \<^verbatim>\<open>_insert_log\<close> leave alone: the rows of the event table,
  in the connection and in the committed database, and the environment table seen by
  the connection. The flag \<open>b\<close> adds that no coming database call fails.
\<close>

definition stable :: "log_data list \<Rightarrow> (string \<times> int) list \<Rightarrow> bool \<Rightarrow> world \<Rightarrow> bool" where
  "stable A E b w =
     (APICall (txn w) = A \<and> APICall (db w) = A \<and> Environment (txn w) = E
      \<and> (if b then faults w = [] else True))"

text \<open>A statement that keeps a property of the world, whether it returns or raises.\<close>

definition preserves :: "(world \<Rightarrow> bool) \<Rightarrow> 'a io \<Rightarrow> bool" where
  "preserves P m = (\<forall>w. P w \<longrightarrow> P (snd (m w)))"

text \<open>
  What holds in every state that the threads can reach: the count of unfinished tasks
  is the number of records waiting or in the hands of the worker; the records put so
  far are, in order, those marked done, the one in the hands of the worker and those
  waiting; once \<^verbatim>\<open>log_queue.join()\<close> has returned, every record put before the call
  of \<^verbatim>\<open>shutdown()\<close> is marked done; the flag is down exactly when
  \<^verbatim>\<open>shutdown()\<close> is past its assignment.
\<close>

definition invariant :: "state \<Rightarrow> bool" where
  "invariant s =
     (unfinished_tasks s = length (in_flight (worker s)) + length (log_queue s)
      \<and> submitted s = completed s @ in_flight (worker s) @ log_queue s
      \<and> prefix (at_shutdown s) (submitted s)
      \<and> (if past_queue_join (shutdown_at s) then prefix (at_shutdown s) (completed s) else True)
      \<and> is_running s = (\<not> past_set_flag (shutdown_at s)))"

text \<open>
  A second fact about every reachable state: while \<^verbatim>\<open>shutdown()\<close> waits for the
  worker thread, the wait ends at most 5 seconds from now.
\<close>

definition deadline_near :: "state \<Rightarrow> bool" where
  "deadline_near s =
     (case shutdown_at s of
        S_thread_join deadline \<Rightarrow> deadline \<le> clock (ext s) + 5
      | _ \<Rightarrow> True)"

section \<open>Sample records\<close>

text \<open>A response record whose exception message has 600 characters.\<close>

definition sample_failure :: log_data where
  "sample_failure =
     [''api_endpoint'' \<mapsto> PStr ''/api/import/uploadfile'',
      ''http_method'' \<mapsto> PStr ''GET'',
      ''http_status_code'' \<mapsto> PInt 500,
      ''error_source'' \<mapsto> PStr ''N/A'',
      ''exception_message'' \<mapsto> PStr (replicate 600 CHR ''x'')]"

text \<open>A record that names neither method, error source, environment nor file type.\<close>

definition sample_bare :: log_data where
  "sample_bare =
     [''api_endpoint'' \<mapsto> PStr ''/api/import/uploadfile'',
      ''client_id'' \<mapsto> PStr ''823842000801419'',
      ''http_status_code'' \<mapsto> PInt 200,
      ''is_success'' \<mapsto> PBool True]"

section \<open>Sample behaviour of the module json\<close>

text \<open>
  What \<^verbatim>\<open>json.dumps\<close> and \<^verbatim>\<open>json.loads\<close> do on the few inputs that the examples
  below use; on every other input these samples raise.
\<close>

definition sample_dumps :: json_dumps where
  "sample_dumps v =
     (if v = PDict [(PStr ''a'', PInt 1)] then Inr ''{\"a\": 1}'' else Inl TypeError)"

definition sample_loads :: json_loads where
  "sample_loads s =
     (if s = ''{\"EnvelopeFooter\": {\"ExceptionThrown\": true}}''
      then Inr (PDict [(PStr ''EnvelopeFooter'', PDict [(PStr ''ExceptionThrown'', PBool True)])])
      else if s = ''{\"EnvelopeBody\": [{\"ResultMessage\": \"OK\"}]}''
      then Inr (PDict [(PStr ''EnvelopeBody'', PList [PDict [(PStr ''ResultMessage'', PStr ''OK'')]])])
      else Inl JSONDecodeError)"

section \<open>Sample schedules\<close>

text \<open>
  A producer submits one record and the worker takes it from the queue; then
  \<^verbatim>\<open>shutdown()\<close> is called. Afterwards the worker inserts the record and marks it
  done, \<^verbatim>\<open>shutdown()\<close> leaves \<^verbatim>\<open>log_queue.join()\<close> and lowers the flag, the worker
  sees the flag and ends, and \<^verbatim>\<open>shutdown()\<close> returns.
\<close>

definition sample_pre :: "event list" where
  "sample_pre = [Submit sample_bare, Worker, Worker]"

definition sample_post :: "event list" where
  "sample_post = [Worker, Worker, Shutdown, Shutdown, Worker, Shutdown]"

text \<open>
  The worker thread is never scheduled again: \<^verbatim>\<open>shutdown()\<close>, called on an empty
  queue, lowers the flag and waits for the worker while five seconds pass.
\<close>

definition sample_stalled :: "event list" where
  "sample_stalled = [Shutdown, Shutdown, Tick, Tick, Tick, Tick, Tick]"

text \<open>
  The same start without the five seconds: \<^verbatim>\<open>shutdown()\<close> has just entered the
  wait for the worker thread.
\<close>

definition sample_waiting :: "event list" where
  "sample_waiting = [Shutdown, Shutdown]"

section \<open>Properties of the lookup resolvers\<close>

lemmas io_defs = and_then_def return_def raise_def print_def

lemma get_http_method_id_total: "\<exists>r w'. get_http_method_id v w = (Inr r, w')"
  by (auto simp: get_http_method_id_def io_defs split: prod.splits sum.splits)

lemma get_http_status_code_id_total: "\<exists>r w'. get_http_status_code_id v w = (Inr r, w')"
  by (auto simp: get_http_status_code_id_def get_http_status_code_id_with_def io_defs split: prod.splits sum.splits)

lemma get_error_source_id_total: "\<exists>r w'. get_error_source_id v w = (Inr r, w')"
  by (auto simp: get_error_source_id_def io_defs split: prod.splits sum.splits)

lemma get_environment_id_total: "\<exists>r w'. get_environment_id v w = (Inr r, w')"
  by (auto simp: get_environment_id_def Let_def io_defs split: prod.splits sum.splits)

lemma get_file_type_id_total: "\<exists>r w'. get_file_type_id v w = (Inr r, w')"
  by (auto simp: get_file_type_id_def io_defs split: prod.splits sum.splits)

text \<open>
  Claim C6. None of the five resolvers (http method, status code, error source,
  environment, file type) raises to its caller, whatever the input value, the state of
  the database and the failures of the coming database calls: each returns a value.
  Whenever the \<^verbatim>\<open>try\<close> body of a resolver raises (a failed query, a failed insert
  or commit, an unparseable status code), the resolver prints one error line and
  returns \<^verbatim>\<open>None\<close>. The environment resolver first replaces a false input by
  \<^verbatim>\<open>'Dev'\<close>.
\<close>

theorem resolvers_never_raise:
  "(\<exists>r w'. get_http_method_id v w = (Inr r, w'))
   \<and> (\<exists>r w'. get_http_status_code_id v w = (Inr r, w'))
   \<and> (\<exists>r w'. get_error_source_id v w = (Inr r, w'))
   \<and> (\<exists>r w'. get_environment_id v w = (Inr r, w'))
   \<and> (\<exists>r w'. get_file_type_id v w = (Inr r, w'))
   \<and> (\<forall>e w'. truthy v \<and> get_http_method_id_try v w = (Inl e, w') \<longrightarrow>
          get_http_method_id v w =
            (Inr None, w'\<lparr>out := out w' @ [Error_getting_HttpMethodID v e]\<rparr>))
   \<and> (\<forall>e w'. truthy v \<and> get_http_status_code_id_try v w = (Inl e, w') \<longrightarrow>
          get_http_status_code_id v w =
            (Inr None, w'\<lparr>out := out w' @ [Error_converting_status_code v e]\<rparr>))
   \<and> (\<forall>e w'. truthy v \<and> get_error_source_id_try v w = (Inl e, w') \<longrightarrow>
          get_error_source_id v w =
            (Inr None, w'\<lparr>out := out w' @ [Error_getting_ErrorSourceID v e]\<rparr>))
   \<and> (\<forall>e w'. truthy v \<and> get_environment_id_try v w = (Inl e, w') \<longrightarrow>
          get_environment_id v w =
            (Inr None, w'\<lparr>out := out w' @ [Error_getting_EnvironmentID v e]\<rparr>))
   \<and> (\<forall>e w'. \<not> truthy v \<and> get_environment_id_try (PStr ''Dev'') w = (Inl e, w') \<longrightarrow>
          get_environment_id v w =
            (Inr None, w'\<lparr>out := out w' @ [Error_getting_EnvironmentID (PStr ''Dev'') e]\<rparr>))
   \<and> (\<forall>e w'. truthy v \<and> get_file_type_id_try v w = (Inl e, w') \<longrightarrow>
          get_file_type_id v w =
            (Inr None, w'\<lparr>out := out w' @ [Error_getting_FileTypeID v e]\<rparr>))"
  using get_http_method_id_total [of v w] get_http_status_code_id_total [of v w]
    get_error_source_id_total [of v w] get_environment_id_total [of v w]
    get_file_type_id_total [of v w]
  by (simp add: get_http_method_id_def get_http_status_code_id_def
      get_http_status_code_id_with_def get_http_status_code_id_try_def get_error_source_id_def
      get_environment_id_def get_file_type_id_def io_defs)

text \<open>
  The first query of the method lookup fails: the resolver returns \<^verbatim>\<open>None\<close> and
  prints the error.
\<close>

theorem resolvers_never_raise_witness:
  "truthy (PStr ''POST'')
   \<and> get_http_method_id_try (PStr ''POST'') (sample_world [True])
       = (Inl DBAPIError, sample_world [])
   \<and> get_http_method_id (PStr ''POST'') (sample_world [True])
       = (Inr None,
          (sample_world [])\<lparr>out := [Error_getting_HttpMethodID (PStr ''POST'') DBAPIError]\<rparr>)"
proof -
  have body: "get_http_method_id_try (PStr ''POST'') (sample_world [True])
      = (Inl DBAPIError, sample_world [])"
    by (simp add: get_http_method_id_try_def select_id_def db_call_def sample_world_def io_defs)
  have "out (sample_world []) = []"
    by (simp add: sample_world_def)
  with body resolvers_never_raise [of "PStr ''POST''" "sample_world [True]"]
  show ?thesis by simp
qed

text \<open>
  Claim C7, as amended. Status-code resolution reads no table and leaves the database
  untouched, whatever the builtin \<^verbatim>\<open>int()\<close> does. An input that Python takes as true
  is handed to \<^verbatim>\<open>int()\<close>: the integer it returns is the result, and when it raises,
  \<^verbatim>\<open>None\<close> is returned and one error line is printed. An input that Python takes as
  false (\<^verbatim>\<open>None\<close>, \<^verbatim>\<open>0\<close>, \<^verbatim>\<open>False\<close>, the empty string) yields \<^verbatim>\<open>None\<close>
  and nothing is printed. In the logger, a status code that is an integer other than 0
  resolves to itself.
\<close>

theorem status_code_resolution:
  "get_http_status_code_id_with int_fn v w =
     (if \<not> truthy v then (Inr None, w)
      else case int_fn v of
             Inr n \<Rightarrow> (Inr (Some n), w)
           | Inl e \<Rightarrow> (Inr None, w\<lparr>out := out w @ [Error_converting_status_code v e]\<rparr>))
   \<and> (n \<noteq> 0 \<longrightarrow> get_http_status_code_id (PInt n) w = (Inr (Some n), w))"
  by (simp add: get_http_status_code_id_def get_http_status_code_id_with_def
      get_http_status_code_id_try_with_def io_defs split: sum.splits)

text \<open>
  In the logger: the status code 404 resolves to 404 even when the next database call
  would fail; the string \<^verbatim>\<open>'200'\<close> resolves to 200; the string \<^verbatim>\<open>'abc'\<close> resolves
  to \<^verbatim>\<open>None\<close> with one printed line.
\<close>

theorem status_code_resolution_witness:
  "get_http_status_code_id (PInt 404) (sample_world [True]) = (Inr (Some 404), sample_world [True])
   \<and> get_http_status_code_id (PStr ''200'') (sample_world []) = (Inr (Some 200), sample_world [])
   \<and> get_http_status_code_id (PStr ''abc'') (sample_world [])
       = (Inr None,
          (sample_world [])\<lparr>out := [Error_converting_status_code (PStr ''abc'') ValueError]\<rparr>)"
proof -
  have "py_int (PStr ''200'') = Inr 200" "py_int (PStr ''abc'') = Inl ValueError"
    by (simp_all add: int_of_str_def strip_def is_space_def is_digit_def digit_val_def)
  moreover have "out (sample_world []) = []"
    by (simp add: sample_world_def)
  ultimately show ?thesis
    using status_code_resolution [of py_int "PInt 404" "sample_world [True]" 404]
      status_code_resolution [of py_int "PStr ''200''" "sample_world []" 404]
      status_code_resolution [of py_int "PStr ''abc''" "sample_world []" 404]
    by (simp add: get_http_status_code_id_def)
qed

text \<open>
  Claim C7 as written fails at the status code \<^verbatim>\<open>0\<close>: the input parses to the
  integer 0, yet the resolver returns \<^verbatim>\<open>None\<close> and prints no warning.
\<close>

theorem status_code_zero_counterexample:
  "py_int (PInt 0) = Inr 0
   \<and> get_http_status_code_id (PInt 0) (sample_world []) = (Inr None, sample_world [])"
  by (simp add: get_http_status_code_id_def get_http_status_code_id_with_def)

text \<open>
  Claim C9. Status-code resolution takes every false input as absent: it returns
  \<^verbatim>\<open>None\<close> without looking further, in particular for the integer \<^verbatim>\<open>0\<close>, for
  \<^verbatim>\<open>False\<close> and for the empty string, whose \<^verbatim>\<open>int()\<close> would be 0, 0 and an error.
\<close>

theorem status_code_falsy_is_absent:
  "\<not> truthy v \<Longrightarrow> get_http_status_code_id v w = (Inr None, w)"
  by (simp add: get_http_status_code_id_def get_http_status_code_id_with_def)

theorem status_code_falsy_is_absent_witness:
  "\<not> truthy (PInt 0) \<and> \<not> truthy (PBool False) \<and> \<not> truthy (PStr [])
   \<and> get_http_status_code_id (PInt 0) (sample_world []) = (Inr None, sample_world [])
   \<and> get_http_status_code_id (PBool False) (sample_world []) = (Inr None, sample_world [])
   \<and> get_http_status_code_id (PStr []) (sample_world []) = (Inr None, sample_world [])"
  using status_code_falsy_is_absent [of "PInt 0" "sample_world []"]
    status_code_falsy_is_absent [of "PBool False" "sample_world []"]
    status_code_falsy_is_absent [of "PStr []" "sample_world []"]
  by simp

section \<open>Properties of the record writer\<close>

lemma and_then_InrE:
  assumes "and_then m f w = (Inr y, w')"
  obtains x w1 where "m w = (Inr x, w1)" and "f x w1 = (Inr y, w')"
  using assms by (auto simp: and_then_def split: prod.splits sum.splits)

lemma return_Inr: "return x w = (Inr y, w') \<Longrightarrow> y = x \<and> w' = w"
  by (auto simp: return_def)

lemma now_Inr: "now w = (Inr t, w') \<Longrightarrow> w' = w \<and> t = PDateTime (clock w)"
  by (auto simp: now_def)

lemma insert_log_paramsE:
  assumes "insert_log_params log_data w = (Inr params, w')"
  obtains http_method_id http_status_code_id error_source_id environment_id file_type_id
    exception_message w1 w2 w3 w4
  where "get_http_method_id (dict_get_default log_data ''http_method'' (PStr ''POST'')) w
           = (Inr http_method_id, w1)"
    and "get_http_status_code_id (dict_get log_data ''http_status_code'') w1
           = (Inr http_status_code_id, w2)"
    and "get_error_source_id (dict_get log_data ''error_source'') w2 = (Inr error_source_id, w3)"
    and "get_environment_id (dict_get_default log_data ''environment'' (PStr ''Dev'')) w3
           = (Inr environment_id, w4)"
    and "get_file_type_id (dict_get log_data ''file_type'') w4 = (Inr file_type_id, w')"
    and "if truthy (dict_get log_data ''exception_message'')
         then py_slice_to 500 (dict_get_default log_data ''exception_message'' (PStr []))
                = Inr exception_message
         else exception_message = PNone"
    and "params =
       [''endpoint'' \<mapsto> dict_get log_data ''api_endpoint'',
        ''http_method_id'' \<mapsto> of_id http_method_id,
        ''client_phone_number'' \<mapsto>
            py_or (dict_get log_data ''client_id'') (dict_get log_data ''client_phone_number''),
        ''debtor_phone_number'' \<mapsto>
            py_or (dict_get log_data ''phone_number'') (dict_get log_data ''debtor_phone_number''),
        ''http_status_code_id'' \<mapsto> of_id http_status_code_id,
        ''response_time'' \<mapsto> dict_get log_data ''response_time'',
        ''is_success'' \<mapsto> PInt (if truthy (dict_get log_data ''is_success'') then 1 else 0),
        ''error_source_id'' \<mapsto> of_id (if error_source_id = None then Some 5 else error_source_id),
        ''exception_message'' \<mapsto> exception_message,
        ''retry_count'' \<mapsto> dict_get_default log_data ''retry_count'' (PInt 0),
        ''environment_id'' \<mapsto> of_id environment_id,
        ''matter_id'' \<mapsto> dict_get log_data ''matter_id'',
        ''file_name'' \<mapsto> dict_get log_data ''file_name'',
        ''file_type_id'' \<mapsto> of_id (if file_type_id = None then Some 49 else file_type_id),
        ''date_created'' \<mapsto> dict_get_default log_data ''created_at'' (PDateTime (clock w'))]"
proof -
  from assms obtain a w1 b w2 c w3 d w4 e w5 em w6 t w7 where
    a: "get_http_method_id (dict_get_default log_data ''http_method'' (PStr ''POST'')) w
           = (Inr a, w1)"
    and b: "get_http_status_code_id (dict_get log_data ''http_status_code'') w1 = (Inr b, w2)"
    and c: "get_error_source_id (dict_get log_data ''error_source'') w2 = (Inr c, w3)"
    and d: "get_environment_id (dict_get_default log_data ''environment'' (PStr ''Dev'')) w3
           = (Inr d, w4)"
    and e: "get_file_type_id (dict_get log_data ''file_type'') w4 = (Inr e, w5)"
    and em: "(if truthy (dict_get log_data ''exception_message'')
              then (case py_slice_to 500 (dict_get_default log_data ''exception_message'' (PStr []))
                    of Inl x \<Rightarrow> raise x | Inr v \<Rightarrow> return v)
              else return PNone) w5 = (Inr em, w6)"
    and t: "now w6 = (Inr t, w7)"
    and r: "return
       [''endpoint'' \<mapsto> dict_get log_data ''api_endpoint'',
        ''http_method_id'' \<mapsto> of_id a,
        ''client_phone_number'' \<mapsto>
            py_or (dict_get log_data ''client_id'') (dict_get log_data ''client_phone_number''),
        ''debtor_phone_number'' \<mapsto>
            py_or (dict_get log_data ''phone_number'') (dict_get log_data ''debtor_phone_number''),
        ''http_status_code_id'' \<mapsto> of_id b,
        ''response_time'' \<mapsto> dict_get log_data ''response_time'',
        ''is_success'' \<mapsto> PInt (if truthy (dict_get log_data ''is_success'') then 1 else 0),
        ''error_source_id'' \<mapsto> of_id (if c = None then Some 5 else c),
        ''exception_message'' \<mapsto> em,
        ''retry_count'' \<mapsto> dict_get_default log_data ''retry_count'' (PInt 0),
        ''environment_id'' \<mapsto> of_id d,
        ''matter_id'' \<mapsto> dict_get log_data ''matter_id'',
        ''file_name'' \<mapsto> dict_get log_data ''file_name'',
        ''file_type_id'' \<mapsto> of_id (if e = None then Some 49 else e),
        ''date_created'' \<mapsto> dict_get_default log_data ''created_at'' t] w7 = (Inr params, w')"
    unfolding insert_log_params_def Let_def
    by (elim and_then_InrE) (rule that; assumption)
  from em have em': "w6 = w5"
    "if truthy (dict_get log_data ''exception_message'')
         then py_slice_to 500 (dict_get_default log_data ''exception_message'' (PStr [])) = Inr em
         else em = PNone"
    by (auto simp: return_def raise_def split: if_splits sum.splits)
  from t have t': "w7 = w6" "t = PDateTime (clock w6)"
    by (auto simp: now_def)
  from return_Inr [OF r] have r': "w' = w7" and p: "params =
       [''endpoint'' \<mapsto> dict_get log_data ''api_endpoint'',
        ''http_method_id'' \<mapsto> of_id a,
        ''client_phone_number'' \<mapsto>
            py_or (dict_get log_data ''client_id'') (dict_get log_data ''client_phone_number''),
        ''debtor_phone_number'' \<mapsto>
            py_or (dict_get log_data ''phone_number'') (dict_get log_data ''debtor_phone_number''),
        ''http_status_code_id'' \<mapsto> of_id b,
        ''response_time'' \<mapsto> dict_get log_data ''response_time'',
        ''is_success'' \<mapsto> PInt (if truthy (dict_get log_data ''is_success'') then 1 else 0),
        ''error_source_id'' \<mapsto> of_id (if c = None then Some 5 else c),
        ''exception_message'' \<mapsto> em,
        ''retry_count'' \<mapsto> dict_get_default log_data ''retry_count'' (PInt 0),
        ''environment_id'' \<mapsto> of_id d,
        ''matter_id'' \<mapsto> dict_get log_data ''matter_id'',
        ''file_name'' \<mapsto> dict_get log_data ''file_name'',
        ''file_type_id'' \<mapsto> of_id (if e = None then Some 49 else e),
        ''date_created'' \<mapsto> dict_get_default log_data ''created_at'' t]"
    by blast+
  show ?thesis
    using a b c d e em' t' r' p by (intro that [of a w1 b w2 c w3 d w4 e em]) simp_all
qed

lemma preservesD: "preserves P m \<Longrightarrow> P w \<Longrightarrow> m w = (r, w') \<Longrightarrow> P w'"
  by (auto simp: preserves_def)

lemma preserves_and_then:
  assumes "preserves P m" and "\<And>x. preserves P (f x)"
  shows "preserves P (and_then m f)"
  using assms by (auto simp: preserves_def and_then_def split: prod.splits sum.splits)

lemma preserves_return: "preserves P (return x)"
  by (simp add: preserves_def return_def)

lemma preserves_raise: "preserves P (raise e)"
  by (simp add: preserves_def raise_def)

lemma preserves_print: "preserves (stable A E b) (print l)"
  by (simp add: preserves_def print_def stable_def)

lemma preserves_now: "preserves P now"
  by (simp add: preserves_def now_def)

lemma preserves_db_call: "preserves (stable A E b) db_call"
  by (auto simp: preserves_def db_call_def stable_def split: list.splits)

lemma preserves_select_id: "preserves (stable A E b) (select_id tbl v)"
  unfolding select_id_def
  by (intro preserves_and_then preserves_db_call) (auto simp: preserves_def raise_def split: pyval.splits)

lemma preserves_insert_ErrorSource: "preserves (stable A E b) (insert_ErrorSource v)"
  unfolding insert_ErrorSource_def
  by (intro preserves_and_then preserves_db_call)
     (auto simp: preserves_def raise_def stable_def split: pyval.splits)

lemma preserves_insert_FileType: "preserves (stable A E b) (insert_FileType v)"
  unfolding insert_FileType_def
  by (intro preserves_and_then preserves_db_call)
     (auto simp: preserves_def raise_def stable_def split: pyval.splits)

lemma preserves_commit: "preserves (stable A E b) commit"
  unfolding commit_def
  by (intro preserves_and_then preserves_db_call) (auto simp: preserves_def stable_def)

lemmas preserves_intros = preserves_and_then preserves_return preserves_raise preserves_print
  preserves_now preserves_select_id preserves_insert_ErrorSource preserves_insert_FileType
  preserves_commit

lemma preserves_handler:
  assumes "preserves P m" and "\<And>e. preserves P (h e)"
  shows "preserves P (\<lambda>w. case m w of (Inl e, w') \<Rightarrow> h e w' | (Inr r, w') \<Rightarrow> (Inr r, w'))"
  using assms by (auto simp: preserves_def split: prod.splits sum.splits)

lemma preserves_if: "(c \<Longrightarrow> preserves P m) \<Longrightarrow> (\<not> c \<Longrightarrow> preserves P n) \<Longrightarrow> preserves P (if c then m else n)"
  by simp

lemma stable_print: "stable A E b w \<Longrightarrow> stable A E b (w\<lparr>out := out w @ [l]\<rparr>)"
  by (simp add: stable_def)

lemma preserves_get_http_method_id: "preserves (stable A E b) (get_http_method_id v)"
proof -
  have t: "preserves (stable A E b) (get_http_method_id_try v)"
    unfolding get_http_method_id_try_def
    by (intro preserves_intros) (auto intro!: preserves_intros split: option.splits)
  show ?thesis
    by (auto simp: preserves_def get_http_method_id_def io_defs stable_print
        split: prod.splits sum.splits dest: preservesD [OF t])
qed

lemma preserves_get_http_status_code_id: "preserves (stable A E b) (get_http_status_code_id v)"
  by (auto simp: preserves_def get_http_status_code_id_def get_http_status_code_id_with_def get_http_status_code_id_try_def get_http_status_code_id_try_with_def
      io_defs stable_print split: sum.splits)

lemma preserves_get_error_source_id: "preserves (stable A E b) (get_error_source_id v)"
proof -
  have t: "preserves (stable A E b) (get_error_source_id_try v)"
    unfolding get_error_source_id_try_def
    by (intro preserves_intros) (auto intro!: preserves_intros split: option.splits)
  show ?thesis
    by (auto simp: preserves_def get_error_source_id_def io_defs stable_print
        split: prod.splits sum.splits dest: preservesD [OF t])
qed

lemma preserves_get_file_type_id: "preserves (stable A E b) (get_file_type_id v)"
proof -
  have t: "preserves (stable A E b) (get_file_type_id_try v)"
    unfolding get_file_type_id_try_def
    by (intro preserves_intros) (auto intro!: preserves_intros split: option.splits)
  show ?thesis
    by (auto simp: preserves_def get_file_type_id_def io_defs stable_print
        split: prod.splits sum.splits dest: preservesD [OF t])
qed

lemma preserves_get_environment_id: "preserves (stable A E b) (get_environment_id v)"
proof -
  have t: "preserves (stable A E b) (get_environment_id_try v')" for v'
    unfolding get_environment_id_try_def
    by (intro preserves_intros) (auto intro!: preserves_intros split: option.splits)
  show ?thesis
    by (auto simp: preserves_def get_environment_id_def Let_def io_defs stable_print
        split: prod.splits sum.splits dest: preservesD [OF t])
qed

lemma preserves_insert_log_params: "preserves (stable A E b) (insert_log_params log_data)"
  unfolding insert_log_params_def Let_def
  by (intro preserves_and_then preserves_get_http_method_id preserves_get_http_status_code_id
      preserves_get_error_source_id preserves_get_file_type_id preserves_get_environment_id
      preserves_now preserves_return)
     (auto intro: preserves_return preserves_raise split: sum.splits)

lemma db_call_cases:
  obtains (fails) w' where "db_call w = (Inl DBAPIError, w')" "db w' = db w" "txn w' = txn w"
      "out w' = out w" "faults w \<noteq> []"
  | (works) w' where "db_call w = (Inr (), w')" "db w' = db w" "txn w' = txn w"
      "out w' = out w" "faults w = [] \<Longrightarrow> w' = w"
proof (cases "faults w")
  case Nil
  then show ?thesis by (intro works [of w]) (simp_all add: db_call_def)
next
  case (Cons f fs)
  then show ?thesis
    by (cases f) (auto simp: db_call_def intro: fails [of "w\<lparr>faults := fs\<rparr>"]
        works [of "w\<lparr>faults := fs\<rparr>"])
qed

lemma insert_log_rows:
  assumes "insert_log log_data w = (r, w')"
  shows "APICall (db w') = APICall (db w)
     \<or> (\<exists>params w1 w2. stable (APICall (db w)) (Environment (db w)) (faults w = []) w1
            \<and> txn w1 = db w
            \<and> insert_log_params log_data w1 = (Inr params, w2)
            \<and> APICall (db w') = APICall (db w) @ [params])"
proof (cases w rule: db_call_cases)
  case (fails w0)
  with assms show ?thesis
    by (auto simp: insert_log_def with_connection_def print_def)
next
  case (works w0)
  define w1 where "w1 = w0\<lparr>txn := db w0\<rparr>"
  define A where "A = APICall (db w)"
  have wc: "with_connection (insert_log_try log_data) w =
      (case insert_log_try log_data w1 of (r, w'') \<Rightarrow> (r, w''\<lparr>txn := db w''\<rparr>))"
    using works(1) by (simp add: with_connection_def w1_def)
  have st: "stable A (Environment (db w)) (faults w = []) w1"
    using works by (auto simp: stable_def w1_def A_def)
  obtain r1 w2 where p: "insert_log_params log_data w1 = (r1, w2)"
    by (cases "insert_log_params log_data w1")
  have st2: "stable A (Environment (db w)) (faults w = []) w2"
    using preservesD [OF preserves_insert_log_params st p] .
  then have A2: "APICall (txn w2) = A" "APICall (db w2) = A"
    by (simp_all add: stable_def)
  show ?thesis
  proof (cases r1)
    case (Inl e)
    have "insert_log_try log_data w1 = (Inl e, w2)"
      using p Inl by (simp add: insert_log_try_def and_then_def)
    with assms wc A2 have "APICall (db w') = A"
      by (auto simp: insert_log_def print_def)
    then show ?thesis by (simp add: A_def)
  next
    case (Inr params)
    show ?thesis
    proof (cases w2 rule: db_call_cases)
      case (fails w3)
      have "insert_log_try log_data w1 = (Inl DBAPIError, w3)"
        using p Inr fails(1) by (simp add: insert_log_try_def and_then_def insert_APICall_def)
      with assms wc A2 fails have "APICall (db w') = A"
        by (auto simp: insert_log_def print_def)
      then show ?thesis by (simp add: A_def)
    next
      case w3: (works w3)
      define w4 where "w4 = w3\<lparr>txn := (txn w3)\<lparr>APICall := APICall (txn w3) @ [params]\<rparr>\<rparr>"
      have ins: "insert_log_try log_data w1 = commit w4"
        using p Inr w3(1) by (simp add: insert_log_try_def and_then_def insert_APICall_def w4_def)
      have w4: "APICall (txn w4) = A @ [params]" "APICall (db w4) = A"
        using A2 w3 by (auto simp: w4_def)
      show ?thesis
      proof (cases w4 rule: db_call_cases)
        case (fails w5)
        have "insert_log_try log_data w1 = (Inl DBAPIError, w5)"
          using ins fails(1) by (simp add: commit_def and_then_def)
        with assms wc w4 fails have "APICall (db w') = A"
          by (auto simp: insert_log_def print_def)
        then show ?thesis by (simp add: A_def)
      next
        case (works w5)
        have "insert_log_try log_data w1 = (Inr (), w5\<lparr>db := txn w5\<rparr>)"
          using ins works(1) by (simp add: commit_def and_then_def)
        with assms wc w4 works have "APICall (db w') = A @ [params]"
          by (auto simp: insert_log_def print_def)
        moreover have "txn w1 = db w"
          using \<open>db w0 = db w\<close> by (simp add: w1_def)
        ultimately show ?thesis
          using st p Inr unfolding A_def by blast
      qed
    qed
  qed
qed

lemma insert_log_total: "\<exists>w'. insert_log log_data w = (Inr (), w')"
  by (auto simp: insert_log_def print_def split: prod.splits sum.splits)

lemmas eval_defs = insert_log_def with_connection_def insert_log_try_def insert_log_params_def
  insert_APICall_def commit_def db_call_def select_id_def
  get_http_method_id_def get_http_method_id_try_def
  get_http_status_code_id_def get_http_status_code_id_with_def get_http_status_code_id_try_def get_http_status_code_id_try_with_def
  get_error_source_id_def get_error_source_id_try_def insert_ErrorSource_def
  get_environment_id_def get_environment_id_try_def
  get_file_type_id_def get_file_type_id_try_def insert_FileType_def
  and_then_def return_def raise_def print_def now_def
  dict_get_def dict_get_default_def py_or_def of_id_def fresh_id_def
  sample_world_def sample_db_def Let_def

text \<open>
  Claim C3. For every record that the writer inserts into the event table, the bound
  parameter \<^verbatim>\<open>exception_message\<close> is the first 500 characters of the record's
  exception message when that is a non-empty string, and \<^verbatim>\<open>None\<close> when the record
  has no message (the field is absent, or holds \<^verbatim>\<open>None\<close> or another false value).
  So a message longer than 500 characters is stored as exactly its first 500.
\<close>

theorem exception_message_truncated:
  assumes "insert_log log_data w = (r, w')" and "APICall (db w') \<noteq> APICall (db w)"
  shows "\<exists>params. APICall (db w') = APICall (db w) @ [params]
     \<and> (\<forall>s. log_data ''exception_message'' = Some (PStr s) \<and> s \<noteq> [] \<longrightarrow>
            params ''exception_message'' = Some (PStr (take 500 s)))
     \<and> (\<not> truthy (dict_get log_data ''exception_message'') \<longrightarrow>
            params ''exception_message'' = Some PNone)"
proof -
  from insert_log_rows [OF assms(1)] assms(2) obtain params w1 w2
    where p: "insert_log_params log_data w1 = (Inr params, w2)"
      and rows: "APICall (db w') = APICall (db w) @ [params]"
    by blast
  from p obtain em where
    em: "if truthy (dict_get log_data ''exception_message'')
         then py_slice_to 500 (dict_get_default log_data ''exception_message'' (PStr [])) = Inr em
         else em = PNone"
    and par: "params ''exception_message'' = Some em"
    by (elim insert_log_paramsE) simp
  have "params ''exception_message'' = Some (PStr (take 500 s))"
    if "log_data ''exception_message'' = Some (PStr s)" "s \<noteq> []" for s
    using em par that by (simp add: dict_get_def dict_get_default_def)
  moreover have "params ''exception_message'' = Some PNone"
    if "\<not> truthy (dict_get log_data ''exception_message'')"
    using em par that by simp
  ultimately show ?thesis
    using rows by blast
qed

text \<open>A message of 600 characters is inserted as 500 characters.\<close>

theorem exception_message_truncated_witness:
  "\<exists>params. APICall (db (snd (insert_log sample_failure (sample_world [])))) = [params]
     \<and> params ''exception_message'' = Some (PStr (replicate 500 CHR ''x''))"
proof -
  have ins: "APICall (db (snd (insert_log sample_failure (sample_world []))))
      \<noteq> APICall (db (sample_world []))"
    by (simp add: eval_defs sample_failure_def)
  have msg: "sample_failure ''exception_message'' = Some (PStr (replicate 600 CHR ''x''))"
    by (simp add: sample_failure_def)
  have "APICall (db (sample_world [])) = []"
    by (simp add: sample_world_def sample_db_def)
  with exception_message_truncated [OF surjective_pairing ins] msg show ?thesis
    by auto
qed

lemma db_call_no_faults: "faults w = [] \<Longrightarrow> db_call w = (Inr (), w)"
  by (simp add: db_call_def)

lemma select_id_no_faults:
  "faults w = [] \<Longrightarrow> select_id tbl (PStr s) w = (Inr (map_of (tbl (txn w)) s), w)"
  by (simp add: select_id_def and_then_def db_call_no_faults)

lemma get_environment_id_Dev:
  assumes "faults w = []" and "\<not> truthy v \<or> v = PStr ''Dev''"
  shows "fst (get_environment_id v w) =
     Inr (case map_of (Environment (txn w)) ''Dev'' of
            Some i \<Rightarrow> Some i
          | None \<Rightarrow> map_of (Environment (txn w)) ''Development'')"
proof -
  have "(if \<not> truthy v then PStr ''Dev'' else v) = PStr ''Dev''"
    using assms(2) by auto
  then show ?thesis
    using assms(1)
    by (simp add: get_environment_id_def get_environment_id_try_def and_then_def Let_def
        select_id_no_faults return_def print_def split: option.splits)
qed

lemma get_http_method_id_POST:
  assumes "faults w = []"
  shows "fst (get_http_method_id (PStr ''POST'') w) = Inr (map_of (HttpMethod (txn w)) ''POST'')"
  using assms
  by (simp add: get_http_method_id_def get_http_method_id_try_def and_then_def
      select_id_no_faults return_def print_def split: option.splits)

text \<open>
  Claim C5. For every record that the writer inserts into the event table: when the
  record has no error source (the field is absent or \<^verbatim>\<open>None\<close>), the bound
  \<^verbatim>\<open>error_source_id\<close> is the fixed key 5; when it has no file type, the bound
  \<^verbatim>\<open>file_type_id\<close> is the fixed key 49; when it has no environment, the lookup
  is made with \<^verbatim>\<open>'Dev'\<close> and, if that name is not in the table, again with
  \<^verbatim>\<open>'Development'\<close>, so that, when no database call fails, the bound
  \<^verbatim>\<open>environment_id\<close> is the key of \<^verbatim>\<open>'Dev'\<close>, else the key of
  \<^verbatim>\<open>'Development'\<close>, else \<^verbatim>\<open>None\<close>.
\<close>

theorem absent_fields_default:
  assumes "insert_log log_data w = (r, w')" and "APICall (db w') \<noteq> APICall (db w)"
  shows "\<exists>params. APICall (db w') = APICall (db w) @ [params]
     \<and> (dict_get log_data ''error_source'' = PNone \<longrightarrow>
            params ''error_source_id'' = Some (PInt 5))
     \<and> (dict_get log_data ''file_type'' = PNone \<longrightarrow>
            params ''file_type_id'' = Some (PInt 49))
     \<and> (dict_get log_data ''environment'' = PNone \<and> faults w = [] \<longrightarrow>
            params ''environment_id'' =
              Some (of_id (case map_of (Environment (db w)) ''Dev'' of
                             Some i \<Rightarrow> Some i
                           | None \<Rightarrow> map_of (Environment (db w)) ''Development'')))"
proof -
  define A where "A = APICall (db w)"
  define E where "E = Environment (db w)"
  define b where "b = (faults w = [])"
  from insert_log_rows [OF assms(1)] assms(2) obtain params w1 w2
    where st: "stable A E b w1"
      and p: "insert_log_params log_data w1 = (Inr params, w2)"
      and rows: "APICall (db w') = APICall (db w) @ [params]"
    unfolding A_def E_def b_def by blast
  from p obtain a c d e f v1 v2 v3 v4
    where r1: "get_http_method_id (dict_get_default log_data ''http_method'' (PStr ''POST'')) w1
           = (Inr a, v1)"
    and r2: "get_http_status_code_id (dict_get log_data ''http_status_code'') v1 = (Inr c, v2)"
    and r3: "get_error_source_id (dict_get log_data ''error_source'') v2 = (Inr d, v3)"
    and r4: "get_environment_id (dict_get_default log_data ''environment'' (PStr ''Dev'')) v3
           = (Inr e, v4)"
    and r5: "get_file_type_id (dict_get log_data ''file_type'') v4 = (Inr f, w2)"
    and es: "params ''error_source_id'' = Some (of_id (if d = None then Some 5 else d))"
    and ft: "params ''file_type_id'' = Some (of_id (if f = None then Some 49 else f))"
    and en: "params ''environment_id'' = Some (of_id e)"
    by (elim insert_log_paramsE) simp
  have "params ''error_source_id'' = Some (PInt 5)" if "dict_get log_data ''error_source'' = PNone"
    using r3 es that by (simp add: get_error_source_id_def of_id_def)
  moreover have "params ''file_type_id'' = Some (PInt 49)"
    if "dict_get log_data ''file_type'' = PNone"
    using r5 ft that by (simp add: get_file_type_id_def of_id_def)
  moreover have "params ''environment_id'' =
              Some (of_id (case map_of E ''Dev'' of
                             Some i \<Rightarrow> Some i
                           | None \<Rightarrow> map_of E ''Development''))"
    if "dict_get log_data ''environment'' = PNone" "faults w = []"
  proof -
    have "stable A E b v1"
      using preservesD [OF preserves_get_http_method_id st r1] .
    then have "stable A E b v2"
      using preservesD [OF preserves_get_http_status_code_id _ r2] by blast
    then have "stable A E b v3"
      using preservesD [OF preserves_get_error_source_id _ r3] by blast
    with that(2) have v3: "Environment (txn v3) = E" "faults v3 = []"
      by (simp_all add: stable_def b_def)
    have "\<not> truthy (dict_get_default log_data ''environment'' (PStr ''Dev''))
        \<or> dict_get_default log_data ''environment'' (PStr ''Dev'') = PStr ''Dev''"
      using that(1) by (auto simp: dict_get_def dict_get_default_def split: option.splits)
    from get_environment_id_Dev [OF v3(2) this] r4 en show ?thesis
      unfolding v3(1) by simp
  qed
  ultimately show ?thesis
    using rows unfolding E_def by blast
qed


text \<open>
  A record without the three fields, on the sample database, whose environment table
  lacks \<^verbatim>\<open>'Dev'\<close> and gives \<^verbatim>\<open>'Development'\<close> the key 1.
\<close>

theorem absent_fields_default_witness:
  "\<exists>params. APICall (db (snd (insert_log sample_bare (sample_world [])))) = [params]
     \<and> params ''error_source_id'' = Some (PInt 5)
     \<and> params ''file_type_id'' = Some (PInt 49)
     \<and> params ''environment_id'' = Some (PInt 1)"
proof -
  have ins: "APICall (db (snd (insert_log sample_bare (sample_world []))))
      \<noteq> APICall (db (sample_world []))"
    by (simp add: eval_defs sample_bare_def)
  have absent: "dict_get sample_bare ''error_source'' = PNone"
    "dict_get sample_bare ''file_type'' = PNone"
    "dict_get sample_bare ''environment'' = PNone"
    by (simp_all add: sample_bare_def dict_get_def)
  have w: "faults (sample_world []) = []" "APICall (db (sample_world [])) = []"
    "Environment (db (sample_world [])) = [(''Development'', 1), (''Production'', 2)]"
    by (simp_all add: sample_world_def sample_db_def)
  from absent_fields_default [OF surjective_pairing ins] absent w show ?thesis
    by (auto simp: of_id_def)
qed

lemma insert_log_params_default_method:
  assumes "log_data ''http_method'' = None"
  shows "insert_log_params (log_data(''http_method'' \<mapsto> PStr ''POST'')) = insert_log_params log_data"
  using assms by (simp add: insert_log_params_def dict_get_def dict_get_default_def)

text \<open>
  Claim C10. A record without the field \<^verbatim>\<open>http_method\<close> is written exactly as the
  same record with the method \<^verbatim>\<open>'POST'\<close>: the writer leaves the same world behind
  for both, whatever the database and its failures. The lookup is made with
  \<^verbatim>\<open>'POST'\<close>: when no database call fails, the bound \<^verbatim>\<open>http_method_id\<close> of the
  inserted row is the key of \<^verbatim>\<open>'POST'\<close> in the method table (\<^verbatim>\<open>None\<close> when the
  table lacks it).
\<close>

theorem missing_method_is_POST:
  assumes "log_data ''http_method'' = None"
  shows "insert_log log_data w = insert_log (log_data(''http_method'' \<mapsto> PStr ''POST'')) w
     \<and> (\<forall>r w'. insert_log log_data w = (r, w') \<and> APICall (db w') \<noteq> APICall (db w)
            \<and> faults w = [] \<longrightarrow>
          (\<exists>params. APICall (db w') = APICall (db w) @ [params]
             \<and> params ''http_method_id'' = Some (of_id (map_of (HttpMethod (db w)) ''POST''))))"
proof
  show "insert_log log_data w = insert_log (log_data(''http_method'' \<mapsto> PStr ''POST'')) w"
    using insert_log_params_default_method [of log_data] assms
    by (simp add: insert_log_def insert_log_try_def)
next
  show "\<forall>r w'. insert_log log_data w = (r, w') \<and> APICall (db w') \<noteq> APICall (db w)
            \<and> faults w = [] \<longrightarrow>
          (\<exists>params. APICall (db w') = APICall (db w) @ [params]
             \<and> params ''http_method_id'' = Some (of_id (map_of (HttpMethod (db w)) ''POST'')))"
  proof (intro allI impI, elim conjE)
    fix r w'
    assume run: "insert_log log_data w = (r, w')"
      and ins: "APICall (db w') \<noteq> APICall (db w)"
      and nf: "faults w = []"
    from insert_log_rows [OF run] ins nf obtain params w1 w2
      where st: "stable (APICall (db w)) (Environment (db w)) True w1"
        and txn: "txn w1 = db w"
        and p: "insert_log_params log_data w1 = (Inr params, w2)"
        and rows: "APICall (db w') = APICall (db w) @ [params]"
      by auto
    from st have nf1: "faults w1 = []"
      by (simp add: stable_def)
    from p obtain a v1
      where r1: "get_http_method_id (dict_get_default log_data ''http_method'' (PStr ''POST'')) w1
           = (Inr a, v1)"
        and m: "params ''http_method_id'' = Some (of_id a)"
      by (elim insert_log_paramsE) simp
    from assms have "dict_get_default log_data ''http_method'' (PStr ''POST'') = PStr ''POST''"
      by (simp add: dict_get_default_def)
    with r1 get_http_method_id_POST [OF nf1] txn m
    have "params ''http_method_id'' = Some (of_id (map_of (HttpMethod (db w)) ''POST''))"
      by simp
    with rows show "\<exists>params. APICall (db w') = APICall (db w) @ [params]
             \<and> params ''http_method_id'' = Some (of_id (map_of (HttpMethod (db w)) ''POST''))"
      by blast
  qed
qed

text \<open>On the sample database the record without a method is inserted with the key 1.\<close>

theorem missing_method_is_POST_witness:
  "sample_bare ''http_method'' = None
   \<and> insert_log sample_bare (sample_world [])
       = insert_log (sample_bare(''http_method'' \<mapsto> PStr ''POST'')) (sample_world [])
   \<and> (\<exists>params. APICall (db (snd (insert_log sample_bare (sample_world [])))) = [params]
         \<and> params ''http_method_id'' = Some (PInt 1))"
proof -
  have ins: "APICall (db (snd (insert_log sample_bare (sample_world []))))
      \<noteq> APICall (db (sample_world []))"
    by (simp add: eval_defs sample_bare_def)
  have absent: "sample_bare ''http_method'' = None"
    by (simp add: sample_bare_def)
  have w: "faults (sample_world []) = []" "APICall (db (sample_world [])) = []"
    "map_of (HttpMethod (db (sample_world []))) ''POST'' = Some 1"
    by (simp_all add: sample_world_def sample_db_def)
  note inst = missing_method_is_POST [of sample_bare "sample_world []", OF absent]
  from conjunct2 [OF inst, rule_format,
      of "fst (insert_log sample_bare (sample_world []))"
         "snd (insert_log sample_bare (sample_world []))"] ins w
  have "\<exists>params. APICall (db (snd (insert_log sample_bare (sample_world [])))) = [params]
         \<and> params ''http_method_id'' = Some (PInt 1)"
    by (simp add: of_id_def)
  with conjunct1 [OF inst] absent show ?thesis
    by simp
qed

section \<open>Properties of the record builders\<close>

lemma log_api_call_record:
  obtains entry where
    "log_api_call log_data s =
       s\<lparr>log_queue := log_queue s @ [entry],
         unfinished_tasks := unfinished_tasks s + 1,
         submitted := submitted s @ [entry]\<rparr>"
    and "\<And>k. k \<noteq> ''created_at'' \<Longrightarrow> entry k = log_data k"
    and "entry ''created_at'' \<noteq> None"
proof (cases "''created_at'' \<in> dom log_data")
  case True
  then show ?thesis
    by (intro that [of log_data]) (auto simp: log_api_call_def Let_def)
next
  case False
  then show ?thesis
    by (intro that [of "log_data(''created_at'' \<mapsto> PDateTime (clock (ext s)))"])
       (auto simp: log_api_call_def Let_def)
qed

lemma request_payload_fields_text:
  assumes "truthy request_payload"
    and "if is_dict request_payload then dumps request_payload = Inr serialized
         else request_payload = PStr serialized"
  shows "\<exists>extra. request_payload_fields dumps request_payload = Inr extra
     \<and> extra ''request_payload'' =
         Some (PStr (if length serialized > 100000 then take 100000 serialized @ ''... [truncated]''
                     else serialized))"
  using assms by (auto simp: request_payload_fields_def bind_exn_def)

lemma request_payload_fields_empty:
  assumes "\<not> truthy request_payload"
  shows "request_payload_fields dumps request_payload = Inr Map.empty"
  using assms by (simp add: request_payload_fields_def)

text \<open>
  Claim C2, as amended. The keyword arguments of a call cannot hold
  \<^verbatim>\<open>request_payload\<close>, a declared parameter. For every payload that Python takes
  as true and that is a string, or a dictionary that \<^verbatim>\<open>json.dumps\<close> serialises: the
  builder submits one record, whose field \<^verbatim>\<open>request_payload\<close> is the text (the
  string itself, the serialisation of the dictionary) when it has at most 100000
  characters, and otherwise its first 100000 characters followed by
  \<^verbatim>\<open>... [truncated]\<close>. For a payload that Python takes as false (\<^verbatim>\<open>None\<close>, the
  empty string, the empty dictionary) the submitted record has no field
  \<^verbatim>\<open>request_payload\<close>, and an empty dictionary is not serialised.
\<close>

theorem request_payload_truncation:
  assumes "kwargs ''request_payload'' = None"
  shows "(truthy request_payload
          \<and> (if is_dict request_payload then dumps request_payload = Inr serialized
              else request_payload = PStr serialized) \<longrightarrow>
          (\<exists>entry.
             log_excalibur_request dumps api_endpoint client_id matter_id phone_number
               request_payload file_name file_type document_type session_id kwargs s
             = (Inr (), s\<lparr>log_queue := log_queue s @ [entry],
                          unfinished_tasks := unfinished_tasks s + 1,
                          submitted := submitted s @ [entry]\<rparr>)
             \<and> entry ''request_payload'' =
                 Some (PStr (if length serialized > 100000
                             then take 100000 serialized @ ''... [truncated]'' else serialized))))
     \<and> (\<not> truthy request_payload \<longrightarrow>
          (\<exists>entry.
             log_excalibur_request dumps api_endpoint client_id matter_id phone_number
               request_payload file_name file_type document_type session_id kwargs s
             = (Inr (), s\<lparr>log_queue := log_queue s @ [entry],
                          unfinished_tasks := unfinished_tasks s + 1,
                          submitted := submitted s @ [entry]\<rparr>)
             \<and> entry ''request_payload'' = None))"
proof (intro conjI impI)
  assume a: "truthy request_payload
          \<and> (if is_dict request_payload then dumps request_payload = Inr serialized
              else request_payload = PStr serialized)"
  then obtain extra where e: "request_payload_fields dumps request_payload = Inr extra"
    and v: "extra ''request_payload'' =
         Some (PStr (if length serialized > 100000 then take 100000 serialized @ ''... [truncated]''
                     else serialized))"
    using request_payload_fields_text [of request_payload dumps serialized] by blast
  define log_data where "log_data =
            [''api_endpoint'' \<mapsto> api_endpoint,
             ''http_method'' \<mapsto> dict_get_default kwargs ''http_method'' (PStr ''POST''),
             ''client_id'' \<mapsto> client_id,
             ''matter_id'' \<mapsto> matter_id,
             ''phone_number'' \<mapsto> phone_number,
             ''session_id'' \<mapsto> session_id,
             ''request_start_time'' \<mapsto> PDateTime (clock (ext s)),
             ''file_uploaded'' \<mapsto> PBool (file_name \<noteq> PNone),
             ''file_name'' \<mapsto> file_name,
             ''file_type'' \<mapsto> file_type,
             ''document_type'' \<mapsto> document_type]"
  have run: "log_excalibur_request dumps api_endpoint client_id matter_id phone_number
               request_payload file_name file_type document_type session_id kwargs s
      = (Inr (), log_api_call ((log_data ++ extra) ++ kwargs) s)"
    by (simp add: log_excalibur_request_def e log_data_def)
  obtain entry where r: "log_api_call ((log_data ++ extra) ++ kwargs) s =
       s\<lparr>log_queue := log_queue s @ [entry],
         unfinished_tasks := unfinished_tasks s + 1,
         submitted := submitted s @ [entry]\<rparr>"
    and k: "entry ''request_payload'' = ((log_data ++ extra) ++ kwargs) ''request_payload''"
    by (rule log_api_call_record [of "(log_data ++ extra) ++ kwargs" s]) simp
  from k v assms have "entry ''request_payload'' =
         Some (PStr (if length serialized > 100000 then take 100000 serialized @ ''... [truncated]''
                     else serialized))"
    by (simp add: map_add_def)
  with run r show "\<exists>entry.
             log_excalibur_request dumps api_endpoint client_id matter_id phone_number
               request_payload file_name file_type document_type session_id kwargs s
             = (Inr (), s\<lparr>log_queue := log_queue s @ [entry],
                          unfinished_tasks := unfinished_tasks s + 1,
                          submitted := submitted s @ [entry]\<rparr>)
             \<and> entry ''request_payload'' =
                 Some (PStr (if length serialized > 100000
                             then take 100000 serialized @ ''... [truncated]'' else serialized))"
    by auto
next
  assume a: "\<not> truthy request_payload"
  define log_data where "log_data =
            [''api_endpoint'' \<mapsto> api_endpoint,
             ''http_method'' \<mapsto> dict_get_default kwargs ''http_method'' (PStr ''POST''),
             ''client_id'' \<mapsto> client_id,
             ''matter_id'' \<mapsto> matter_id,
             ''phone_number'' \<mapsto> phone_number,
             ''session_id'' \<mapsto> session_id,
             ''request_start_time'' \<mapsto> PDateTime (clock (ext s)),
             ''file_uploaded'' \<mapsto> PBool (file_name \<noteq> PNone),
             ''file_name'' \<mapsto> file_name,
             ''file_type'' \<mapsto> file_type,
             ''document_type'' \<mapsto> document_type]"
  have run: "log_excalibur_request dumps api_endpoint client_id matter_id phone_number
               request_payload file_name file_type document_type session_id kwargs s
      = (Inr (), log_api_call ((log_data ++ Map.empty) ++ kwargs) s)"
    by (simp add: log_excalibur_request_def request_payload_fields_empty [OF a] log_data_def)
  obtain entry where r: "log_api_call ((log_data ++ Map.empty) ++ kwargs) s =
       s\<lparr>log_queue := log_queue s @ [entry],
         unfinished_tasks := unfinished_tasks s + 1,
         submitted := submitted s @ [entry]\<rparr>"
    and k: "entry ''request_payload'' = ((log_data ++ Map.empty) ++ kwargs) ''request_payload''"
    by (rule log_api_call_record [of "(log_data ++ Map.empty) ++ kwargs" s]) simp
  from k assms have "entry ''request_payload'' = None"
    by (simp add: map_add_def log_data_def)
  with run r show "\<exists>entry.
             log_excalibur_request dumps api_endpoint client_id matter_id phone_number
               request_payload file_name file_type document_type session_id kwargs s
             = (Inr (), s\<lparr>log_queue := log_queue s @ [entry],
                          unfinished_tasks := unfinished_tasks s + 1,
                          submitted := submitted s @ [entry]\<rparr>)
             \<and> entry ''request_payload'' = None"
    by auto
qed


text \<open>
  A payload of 150000 characters is stored as 100000 characters and the marker; a small
  dictionary is stored as its serialisation.
\<close>

theorem request_payload_truncation_witness:
  "fst (log_excalibur_request sample_dumps (PStr ''/api/import'') (PStr ''823842000801419'')
          PNone PNone (PStr (replicate 150000 CHR ''a'')) PNone PNone PNone PNone Map.empty
          (init (sample_world []))) = Inr ()
   \<and> last (log_queue (snd (log_excalibur_request sample_dumps (PStr ''/api/import'')
          (PStr ''823842000801419'') PNone PNone (PStr (replicate 150000 CHR ''a'')) PNone PNone
          PNone PNone Map.empty (init (sample_world []))))) ''request_payload''
       = Some (PStr (replicate 100000 CHR ''a'' @ ''... [truncated]''))
   \<and> last (log_queue (snd (log_excalibur_request sample_dumps (PStr ''/api/import'')
          (PStr ''823842000801419'') PNone PNone (PDict [(PStr ''a'', PInt 1)]) PNone PNone
          PNone PNone Map.empty (init (sample_world []))))) ''request_payload''
       = Some (PStr ''{\"a\": 1}'')"
proof -
  have long: "truthy (PStr (replicate 150000 CHR ''a''))
      \<and> (if is_dict (PStr (replicate 150000 CHR ''a''))
          then sample_dumps (PStr (replicate 150000 CHR ''a'')) = Inr (replicate 150000 CHR ''a'')
          else PStr (replicate 150000 CHR ''a'') = PStr (replicate 150000 CHR ''a''))"
    by simp
  have dict: "truthy (PDict [(PStr ''a'', PInt 1)])
      \<and> (if is_dict (PDict [(PStr ''a'', PInt 1)])
          then sample_dumps (PDict [(PStr ''a'', PInt 1)]) = Inr ''{\"a\": 1}''
          else PDict [(PStr ''a'', PInt 1)] = PStr ''{\"a\": 1}'')"
    by (simp add: sample_dumps_def)
  have none: "(Map.empty :: log_data) ''request_payload'' = None"
    by simp
  from request_payload_truncation [OF none, of "PStr (replicate 150000 CHR ''a'')" sample_dumps
      "replicate 150000 CHR ''a''" "PStr ''/api/import''" "PStr ''823842000801419''"
      PNone PNone PNone PNone PNone PNone "init (sample_world [])"] long
  have "fst (log_excalibur_request sample_dumps (PStr ''/api/import'') (PStr ''823842000801419'')
          PNone PNone (PStr (replicate 150000 CHR ''a'')) PNone PNone PNone PNone Map.empty
          (init (sample_world []))) = Inr ()
   \<and> last (log_queue (snd (log_excalibur_request sample_dumps (PStr ''/api/import'')
          (PStr ''823842000801419'') PNone PNone (PStr (replicate 150000 CHR ''a'')) PNone PNone
          PNone PNone Map.empty (init (sample_world []))))) ''request_payload''
       = Some (PStr (replicate 100000 CHR ''a'' @ ''... [truncated]''))"
    by auto
  moreover
  from request_payload_truncation [OF none, of "PDict [(PStr ''a'', PInt 1)]" sample_dumps
      "''{\"a\": 1}''" "PStr ''/api/import''" "PStr ''823842000801419''"
      PNone PNone PNone PNone PNone PNone "init (sample_world [])"] dict
  have "last (log_queue (snd (log_excalibur_request sample_dumps (PStr ''/api/import'')
          (PStr ''823842000801419'') PNone PNone (PDict [(PStr ''a'', PInt 1)]) PNone PNone
          PNone PNone Map.empty (init (sample_world []))))) ''request_payload''
       = Some (PStr ''{\"a\": 1}'')"
    by auto
  ultimately show ?thesis
    by blast
qed

text \<open>
  Claim C2 as written fails at the empty string, a payload of at most 100000
  characters: the builder returns, and the record it submits has no field
  \<^verbatim>\<open>request_payload\<close>. The same holds for the empty dictionary, which is not
  serialised to \<^verbatim>\<open>{}\<close>.
\<close>

theorem empty_payload_counterexample:
  "length ([] :: string) \<le> 100000
   \<and> fst (log_excalibur_request sample_dumps (PStr ''/api/import'') (PStr ''823842000801419'')
          PNone PNone (PStr []) PNone PNone PNone PNone Map.empty (init (sample_world [])))
       = Inr ()
   \<and> last (log_queue (snd (log_excalibur_request sample_dumps (PStr ''/api/import'')
          (PStr ''823842000801419'') PNone PNone (PStr []) PNone PNone PNone PNone Map.empty
          (init (sample_world []))))) ''request_payload'' = None
   \<and> last (log_queue (snd (log_excalibur_request sample_dumps (PStr ''/api/import'')
          (PStr ''823842000801419'') PNone PNone (PDict []) PNone PNone PNone PNone Map.empty
          (init (sample_world []))))) ''request_payload'' = None"
  by (simp add: log_excalibur_request_def request_payload_fields_def log_api_call_def Let_def
      init_def)

lemma map_add_lookup: "(m ++ n) k = (case n k of None \<Rightarrow> m k | Some v \<Rightarrow> Some v)"
  by (simp add: map_add_def)

lemma log_excalibur_response_cases:
  fixes loads :: json_loads and dumps :: json_dumps
  assumes ex: "extract_message loads response_payload exception_thrown_arg exception_message_arg
      = (response_message, exception_thrown, exception_message)"
  obtains (raises) e where "truthy response_payload" "is_dict response_payload"
      "dumps response_payload = Inl e"
      "log_excalibur_response loads dumps api_endpoint client_id http_status_code response_time
         response_payload is_success_arg exception_thrown_arg exception_message_arg error_source
         ssl_verified retry_count kwargs s = (Inl e, s)"
  | (submits) entry where
      "log_excalibur_response loads dumps api_endpoint client_id http_status_code response_time
         response_payload is_success_arg exception_thrown_arg exception_message_arg error_source
         ssl_verified retry_count kwargs s
       = (Inr (), s\<lparr>log_queue := log_queue s @ [entry],
                    unfinished_tasks := unfinished_tasks s + 1,
                    submitted := submitted s @ [entry]\<rparr>)"
      "entry ''response_message'' =
         Some (case kwargs ''response_message'' of None \<Rightarrow> response_message | Some v \<Rightarrow> v)"
      "entry ''exception_thrown'' =
         Some (case kwargs ''exception_thrown'' of None \<Rightarrow> exception_thrown | Some v \<Rightarrow> v)"
      "entry ''is_success'' =
         Some (case kwargs ''is_success'' of
                 None \<Rightarrow> if is_success_arg = PNone
                         then PBool (py_eq_int http_status_code 200 \<and> \<not> truthy exception_thrown)
                         else is_success_arg
               | Some v \<Rightarrow> v)"
      "truthy response_payload \<and> is_dict response_payload \<longrightarrow>
         (\<exists>t. dumps response_payload = Inr t)"
proof -
  define is_success where "is_success = (if is_success_arg = PNone
                       then PBool (py_eq_int http_status_code 200 \<and> \<not> truthy exception_thrown)
                       else is_success_arg)"
  define log_data where "log_data =
            [''api_endpoint'' \<mapsto> api_endpoint,
             ''client_id'' \<mapsto> client_id,
             ''http_status_code'' \<mapsto> http_status_code,
             ''response_time'' \<mapsto> response_time,
             ''response_message'' \<mapsto> response_message,
             ''is_success'' \<mapsto> is_success,
             ''exception_thrown'' \<mapsto> exception_thrown,
             ''exception_message'' \<mapsto> exception_message,
             ''error_source'' \<mapsto> error_source,
             ''ssl_verified'' \<mapsto> ssl_verified,
             ''retry_count'' \<mapsto> retry_count,
             ''request_end_time'' \<mapsto> PDateTime (clock (ext s))]"
  define payload where "payload =
     (if truthy response_payload
              then bind_exn (if is_dict response_payload
                             then bind_exn (dumps response_payload) (\<lambda>t. Inr (PStr t))
                             else Inr response_payload)
                     (\<lambda>stored. Inr [''response_payload'' \<mapsto> stored])
              else Inr Map.empty)"
  have run: "log_excalibur_response loads dumps api_endpoint client_id http_status_code response_time
         response_payload is_success_arg exception_thrown_arg exception_message_arg error_source
         ssl_verified retry_count kwargs s
      = (case payload of Inl e \<Rightarrow> (Inl e, s)
         | Inr extra \<Rightarrow> (Inr (), log_api_call ((log_data ++ extra) ++ kwargs) s))"
    unfolding log_excalibur_response_def ex payload_def log_data_def is_success_def
    by (simp add: Let_def)
  show ?thesis
  proof (cases payload)
    case (Inl e)
    then have "truthy response_payload" "is_dict response_payload" "dumps response_payload = Inl e"
      by (auto simp: payload_def bind_exn_def split: if_splits sum.splits)
    with run Inl show ?thesis
      by (intro raises [of e]) simp_all
  next
    case (Inr extra)
    then have extra: "extra ''response_message'' = None" "extra ''exception_thrown'' = None"
      "extra ''is_success'' = None"
      and ok: "truthy response_payload \<and> is_dict response_payload \<longrightarrow>
         (\<exists>t. dumps response_payload = Inr t)"
      by (auto simp: payload_def bind_exn_def split: if_splits sum.splits)
    obtain entry where r: "log_api_call ((log_data ++ extra) ++ kwargs) s =
       s\<lparr>log_queue := log_queue s @ [entry],
         unfinished_tasks := unfinished_tasks s + 1,
         submitted := submitted s @ [entry]\<rparr>"
      and k: "\<And>k. k \<noteq> ''created_at'' \<Longrightarrow> entry k = ((log_data ++ extra) ++ kwargs) k"
      by (rule log_api_call_record [of "(log_data ++ extra) ++ kwargs" s]) blast
    have "entry ''response_message'' =
         Some (case kwargs ''response_message'' of None \<Rightarrow> response_message | Some v \<Rightarrow> v)"
      "entry ''exception_thrown'' =
         Some (case kwargs ''exception_thrown'' of None \<Rightarrow> exception_thrown | Some v \<Rightarrow> v)"
      "entry ''is_success'' = Some (case kwargs ''is_success'' of None \<Rightarrow> is_success | Some v \<Rightarrow> v)"
      using extra by (simp_all add: k map_add_lookup log_data_def split: option.splits)
    with run Inr r ok show ?thesis
      unfolding is_success_def by (intro submits [of entry]) simp_all
  qed
qed


lemma extract_message_no_payload:
  "\<not> truthy response_payload \<Longrightarrow>
   extract_message loads response_payload exception_thrown exception_message
     = (PNone, exception_thrown, exception_message)"
  by (simp add: extract_message_def)

lemma extract_message_failed:
  "extract_message_try loads response_payload exception_thrown exception_message = Inl x \<Longrightarrow>
   extract_message loads response_payload exception_thrown exception_message
     = (PNone, exception_thrown, exception_message)"
  by (simp add: extract_message_def)

lemma in_keys_iff: "(k \<in> fst ` set kvs) = (map_of kvs k \<noteq> None)"
  by (simp add: map_of_eq_None_iff)

lemmas extract_defs = extract_message_def extract_message_try_def extract_footer_def bind_exn_def

lemma thrown_not_dict:
  fixes loads :: json_loads
  assumes "(case response_payload of PStr p \<Rightarrow> loads p | _ \<Rightarrow> Inr response_payload) = Inr json"
    and "\<not> is_dict json"
  shows "fst (snd (extract_message loads response_payload exception_thrown_arg
                     exception_message_arg)) = exception_thrown_arg"
  using assms by (cases json) (simp_all add: extract_defs)

lemma thrown_no_footer:
  fixes loads :: json_loads
  assumes "(case response_payload of PStr p \<Rightarrow> loads p | _ \<Rightarrow> Inr response_payload)
             = Inr (PDict kvs)"
    and "map_of kvs (PStr ''EnvelopeBody'') \<in> {None, Some (PList []), Some (PStr []), Some (PDict [])}"
    and "map_of kvs (PStr ''EnvelopeFooter'') = None"
  shows "fst (snd (extract_message loads response_payload exception_thrown_arg
                     exception_message_arg)) = exception_thrown_arg"
  using assms by (auto simp: extract_defs in_keys_iff)

lemma thrown_footer:
  fixes loads :: json_loads
  assumes "truthy response_payload"
    and "(case response_payload of PStr p \<Rightarrow> loads p | _ \<Rightarrow> Inr response_payload)
             = Inr (PDict kvs)"
    and "map_of kvs (PStr ''EnvelopeBody'') \<in> {None, Some (PList []), Some (PStr []), Some (PDict [])}"
    and "map_of kvs (PStr ''EnvelopeFooter'') = Some (PDict footer)"
  shows "fst (snd (extract_message loads response_payload exception_thrown_arg
                     exception_message_arg))
     = (case map_of footer (PStr ''ExceptionThrown'') of None \<Rightarrow> PBool False | Some v \<Rightarrow> v)"
  using assms by (auto simp: extract_defs in_keys_iff)

lemma thrown_body:
  fixes loads :: json_loads
  assumes "(case response_payload of PStr p \<Rightarrow> loads p | _ \<Rightarrow> Inr response_payload)
             = Inr (PDict kvs)"
    and "map_of kvs (PStr ''EnvelopeBody'') = Some body"
    and "body \<notin> {PList [], PStr [], PDict []}"
  shows "fst (snd (extract_message loads response_payload exception_thrown_arg
                     exception_message_arg)) = exception_thrown_arg"
proof -
  show ?thesis
  proof (cases "truthy response_payload")
    case False
    then show ?thesis by (simp add: extract_message_def)
  next
    case True
    show ?thesis
    proof (cases body)
      case (PList xs)
      with assms(3) obtain x ys where "xs = x # ys" by (cases xs) auto
      with assms PList True show ?thesis
        by (cases x) (auto simp: extract_defs in_keys_iff)
    next
      case (PStr t)
      with assms(3) obtain c cs where "t = c # cs" by (cases t) auto
      with assms PStr True show ?thesis
        by (auto simp: extract_defs in_keys_iff)
    next
      case (PDict d)
      with assms(3) have "d \<noteq> []" by simp
      with assms PDict True show ?thesis
        by (cases "find (\<lambda>(k, v). k = PInt 0 \<or> k = PBool False) d")
           (auto simp: extract_defs in_keys_iff split: sum.splits pyval.splits)
    qed (use assms True in \<open>auto simp: extract_defs in_keys_iff\<close>)
  qed
qed

lemma thrown_footer_not_dict:
  fixes loads :: json_loads
  assumes "(case response_payload of PStr p \<Rightarrow> loads p | _ \<Rightarrow> Inr response_payload)
             = Inr (PDict kvs)"
    and "map_of kvs (PStr ''EnvelopeBody'') \<in> {None, Some (PList []), Some (PStr []), Some (PDict [])}"
    and "map_of kvs (PStr ''EnvelopeFooter'') = Some footer"
    and "\<not> is_dict footer"
  shows "fst (snd (extract_message loads response_payload exception_thrown_arg
                     exception_message_arg)) = exception_thrown_arg"
  using assms by (cases footer) (auto simp: extract_defs in_keys_iff)

lemma thrown_not_parsed:
  fixes loads :: json_loads
  assumes "response_payload = PStr p" and "loads p = Inl e"
  shows "fst (snd (extract_message loads response_payload exception_thrown_arg
                     exception_message_arg)) = exception_thrown_arg"
  using assms by (simp add: extract_defs)


text \<open>
  Claim C4. The keyword arguments of a call cannot hold \<^verbatim>\<open>is_success\<close> or
  \<^verbatim>\<open>exception_thrown\<close>, which are declared parameters. Whenever the response
  builder is called with \<^verbatim>\<open>is_success\<close> left at \<^verbatim>\<open>None\<close> and submits its
  record, the field \<^verbatim>\<open>is_success\<close> of the record is the truth value of
  \<^verbatim>\<open>http_status_code == 200 and not exception_thrown\<close> (for an integer status
  code \<open>n\<close>: of \<open>n = 200\<close> and \<^verbatim>\<open>not exception_thrown\<close>), where
  \<^verbatim>\<open>exception_thrown\<close> is the value stored in the record. That value is the one
  the caller gave, with one exception: when the payload (parsed by \<^verbatim>\<open>json.loads\<close> if
  it is a string) is a dictionary without a usable \<^verbatim>\<open>EnvelopeBody\<close> (the key is
  absent or holds an empty list, string or dictionary) whose \<^verbatim>\<open>EnvelopeFooter\<close> is a
  dictionary, it is the footer's \<^verbatim>\<open>ExceptionThrown\<close>, or \<^verbatim>\<open>False\<close> when the
  footer has no such key. In every other case the caller's value stays: no payload, a
  string that \<^verbatim>\<open>json.loads\<close> refuses, a failed extraction, a parsed value that is not
  a dictionary, a non-empty \<^verbatim>\<open>EnvelopeBody\<close>, no footer, a footer that is not a
  dictionary.
\<close>

theorem success_inferred:
  fixes loads :: json_loads and dumps :: json_dumps
  assumes "is_success_arg = PNone"
    and "kwargs ''is_success'' = None" and "kwargs ''exception_thrown'' = None"
    and "log_excalibur_response loads dumps api_endpoint client_id http_status_code response_time
           response_payload is_success_arg exception_thrown_arg exception_message_arg error_source
           ssl_verified retry_count kwargs s = (Inr (), s')"
  shows "\<exists>entry exception_thrown.
           s' = s\<lparr>log_queue := log_queue s @ [entry],
                   unfinished_tasks := unfinished_tasks s + 1,
                   submitted := submitted s @ [entry]\<rparr>
         \<and> exception_thrown
             = fst (snd (extract_message loads response_payload exception_thrown_arg
                           exception_message_arg))
         \<and> (\<not> truthy response_payload \<longrightarrow> exception_thrown = exception_thrown_arg)
         \<and> entry ''exception_thrown'' = Some exception_thrown
         \<and> entry ''is_success''
             = Some (PBool (py_eq_int http_status_code 200 \<and> \<not> truthy exception_thrown))
         \<and> (\<forall>n. http_status_code = PInt n \<longrightarrow>
               entry ''is_success'' = Some (PBool (n = 200 \<and> \<not> truthy exception_thrown)))
         \<and> (\<forall>p e. response_payload = PStr p \<and> loads p = Inl e \<longrightarrow>
               exception_thrown = exception_thrown_arg)
         \<and> (\<forall>x. extract_message_try loads response_payload exception_thrown_arg
                    exception_message_arg = Inl x \<longrightarrow>
               exception_thrown = exception_thrown_arg)
         \<and> (\<forall>json. (case response_payload of PStr p \<Rightarrow> loads p | _ \<Rightarrow> Inr response_payload)
                      = Inr json
                 \<and> \<not> is_dict json \<longrightarrow>
               exception_thrown = exception_thrown_arg)
         \<and> (\<forall>kvs body. (case response_payload of PStr p \<Rightarrow> loads p | _ \<Rightarrow> Inr response_payload)
                      = Inr (PDict kvs)
                 \<and> map_of kvs (PStr ''EnvelopeBody'') = Some body
                 \<and> body \<notin> {PList [], PStr [], PDict []} \<longrightarrow>
               exception_thrown = exception_thrown_arg)
         \<and> (\<forall>kvs. (case response_payload of PStr p \<Rightarrow> loads p | _ \<Rightarrow> Inr response_payload)
                      = Inr (PDict kvs)
                 \<and> map_of kvs (PStr ''EnvelopeBody'')
                     \<in> {None, Some (PList []), Some (PStr []), Some (PDict [])}
                 \<and> map_of kvs (PStr ''EnvelopeFooter'') = None \<longrightarrow>
               exception_thrown = exception_thrown_arg)
         \<and> (\<forall>kvs footer.
                   (case response_payload of PStr p \<Rightarrow> loads p | _ \<Rightarrow> Inr response_payload)
                      = Inr (PDict kvs)
                 \<and> map_of kvs (PStr ''EnvelopeBody'')
                     \<in> {None, Some (PList []), Some (PStr []), Some (PDict [])}
                 \<and> map_of kvs (PStr ''EnvelopeFooter'') = Some footer
                 \<and> \<not> is_dict footer \<longrightarrow>
               exception_thrown = exception_thrown_arg)
         \<and> (\<forall>kvs footer. truthy response_payload
                 \<and> (case response_payload of PStr p \<Rightarrow> loads p | _ \<Rightarrow> Inr response_payload)
                      = Inr (PDict kvs)
                 \<and> map_of kvs (PStr ''EnvelopeBody'')
                     \<in> {None, Some (PList []), Some (PStr []), Some (PDict [])}
                 \<and> map_of kvs (PStr ''EnvelopeFooter'') = Some (PDict footer) \<longrightarrow>
               exception_thrown
                 = (case map_of footer (PStr ''ExceptionThrown'') of
                      None \<Rightarrow> PBool False
                    | Some v \<Rightarrow> v))"
proof -
  obtain m t em where ex:
    "extract_message loads response_payload exception_thrown_arg exception_message_arg = (m, t, em)"
    by (cases "extract_message loads response_payload exception_thrown_arg exception_message_arg")
  then have t: "t = fst (snd (extract_message loads response_payload exception_thrown_arg
                           exception_message_arg))"
    by simp
  have np: "\<not> truthy response_payload \<longrightarrow> t = exception_thrown_arg"
    using ex by (auto simp: extract_message_no_payload)
  have c1: "\<forall>p e. response_payload = PStr p \<and> loads p = Inl e \<longrightarrow> t = exception_thrown_arg"
    unfolding t using thrown_not_parsed [of response_payload _ loads] by blast
  have c2: "\<forall>x. extract_message_try loads response_payload exception_thrown_arg
                    exception_message_arg = Inl x \<longrightarrow> t = exception_thrown_arg"
    unfolding t by (auto simp: extract_message_failed)
  have c3: "\<forall>json. (case response_payload of PStr p \<Rightarrow> loads p | _ \<Rightarrow> Inr response_payload)
                      = Inr json \<and> \<not> is_dict json \<longrightarrow> t = exception_thrown_arg"
    unfolding t using thrown_not_dict [of response_payload loads] by blast
  have c4: "\<forall>kvs body. (case response_payload of PStr p \<Rightarrow> loads p | _ \<Rightarrow> Inr response_payload)
                      = Inr (PDict kvs)
                 \<and> map_of kvs (PStr ''EnvelopeBody'') = Some body
                 \<and> body \<notin> {PList [], PStr [], PDict []} \<longrightarrow> t = exception_thrown_arg"
    unfolding t using thrown_body [of response_payload loads] by blast
  have c5: "\<forall>kvs. (case response_payload of PStr p \<Rightarrow> loads p | _ \<Rightarrow> Inr response_payload)
                      = Inr (PDict kvs)
                 \<and> map_of kvs (PStr ''EnvelopeBody'')
                     \<in> {None, Some (PList []), Some (PStr []), Some (PDict [])}
                 \<and> map_of kvs (PStr ''EnvelopeFooter'') = None \<longrightarrow> t = exception_thrown_arg"
    unfolding t using thrown_no_footer [of response_payload loads] by blast
  have c6: "\<forall>kvs footer.
                   (case response_payload of PStr p \<Rightarrow> loads p | _ \<Rightarrow> Inr response_payload)
                      = Inr (PDict kvs)
                 \<and> map_of kvs (PStr ''EnvelopeBody'')
                     \<in> {None, Some (PList []), Some (PStr []), Some (PDict [])}
                 \<and> map_of kvs (PStr ''EnvelopeFooter'') = Some footer
                 \<and> \<not> is_dict footer \<longrightarrow> t = exception_thrown_arg"
    unfolding t using thrown_footer_not_dict [of response_payload loads] by blast
  have c7: "\<forall>kvs footer. truthy response_payload
                 \<and> (case response_payload of PStr p \<Rightarrow> loads p | _ \<Rightarrow> Inr response_payload)
                      = Inr (PDict kvs)
                 \<and> map_of kvs (PStr ''EnvelopeBody'')
                     \<in> {None, Some (PList []), Some (PStr []), Some (PDict [])}
                 \<and> map_of kvs (PStr ''EnvelopeFooter'') = Some (PDict footer) \<longrightarrow>
               t = (case map_of footer (PStr ''ExceptionThrown'') of
                      None \<Rightarrow> PBool False
                    | Some v \<Rightarrow> v)"
    unfolding t using thrown_footer [of response_payload loads] by blast
  from ex show ?thesis
  proof (cases rule: log_excalibur_response_cases [where dumps = dumps and kwargs = kwargs
        and s = s and api_endpoint = api_endpoint and client_id = client_id
        and http_status_code = http_status_code and response_time = response_time
        and is_success_arg = is_success_arg and error_source = error_source
        and ssl_verified = ssl_verified and retry_count = retry_count])
    case (raises e)
    with assms(4) show ?thesis by simp
  next
    case (submits entry)
    with assms have e1: "s' = s\<lparr>log_queue := log_queue s @ [entry],
                   unfinished_tasks := unfinished_tasks s + 1,
                   submitted := submitted s @ [entry]\<rparr>"
      and e2: "entry ''exception_thrown'' = Some t"
      and e3: "entry ''is_success''
             = Some (PBool (py_eq_int http_status_code 200 \<and> \<not> truthy t))"
      by simp_all
    from e3 have e4: "\<forall>n. http_status_code = PInt n \<longrightarrow>
               entry ''is_success'' = Some (PBool (n = 200 \<and> \<not> truthy t))"
      by simp
    show ?thesis
      by (intro exI [of _ entry] exI [of _ t] conjI e1 e2 e3 e4 t np c1 c2 c3 c4 c5 c6 c7)
  qed
qed

lemmas response_eval = log_excalibur_response_def extract_message_def extract_message_try_def
  extract_footer_def bind_exn_def sample_loads_def sample_dumps_def Let_def

text \<open>
  Status 200 without exception gives a true flag; status 500 with
  \<^verbatim>\<open>exception_thrown=True\<close> gives a false one; status 200 with a payload whose
  footer says that an exception was thrown stores that value in place of the caller's
  \<^verbatim>\<open>False\<close> and gives a false flag.
\<close>

theorem success_inferred_witness:
  "last (log_queue (snd (log_excalibur_response sample_loads sample_dumps (PStr ''/api/import'')
          (PStr ''823842000801419'') (PInt 200) (PInt 1234) PNone PNone (PBool False) PNone
          PNone (PBool True) (PInt 0) Map.empty (init (sample_world []))))) ''is_success''
     = Some (PBool True)
   \<and> last (log_queue (snd (log_excalibur_response sample_loads sample_dumps (PStr ''/api/import'')
          (PStr ''823842000801419'') (PInt 500) (PInt 1234) PNone PNone (PBool True)
          (PStr ''boom'') PNone (PBool True) (PInt 0) Map.empty (init (sample_world [])))))
        ''is_success''
     = Some (PBool False)
   \<and> last (log_queue (snd (log_excalibur_response sample_loads sample_dumps (PStr ''/api/import'')
          (PStr ''823842000801419'') (PInt 200) (PInt 1234)
          (PStr ''{\"EnvelopeFooter\": {\"ExceptionThrown\": true}}'') PNone (PBool False) PNone
          PNone (PBool True) (PInt 0) Map.empty (init (sample_world []))))) ''exception_thrown''
     = Some (PBool True)
   \<and> last (log_queue (snd (log_excalibur_response sample_loads sample_dumps (PStr ''/api/import'')
          (PStr ''823842000801419'') (PInt 200) (PInt 1234)
          (PStr ''{\"EnvelopeFooter\": {\"ExceptionThrown\": true}}'') PNone (PBool False) PNone
          PNone (PBool True) (PInt 0) Map.empty (init (sample_world []))))) ''is_success''
     = Some (PBool False)"
proof -
  let ?s = "init (sample_world [])"
  let ?footer = "PStr ''{\"EnvelopeFooter\": {\"ExceptionThrown\": true}}''"
  let ?r1 = "log_excalibur_response sample_loads sample_dumps (PStr ''/api/import'')
          (PStr ''823842000801419'') (PInt 200) (PInt 1234) PNone PNone (PBool False) PNone
          PNone (PBool True) (PInt 0) Map.empty ?s"
  let ?r2 = "log_excalibur_response sample_loads sample_dumps (PStr ''/api/import'')
          (PStr ''823842000801419'') (PInt 500) (PInt 1234) PNone PNone (PBool True)
          (PStr ''boom'') PNone (PBool True) (PInt 0) Map.empty ?s"
  let ?r3 = "log_excalibur_response sample_loads sample_dumps (PStr ''/api/import'')
          (PStr ''823842000801419'') (PInt 200) (PInt 1234) ?footer PNone (PBool False) PNone
          PNone (PBool True) (PInt 0) Map.empty ?s"
  have none: "(Map.empty :: log_data) ''is_success'' = None"
    "(Map.empty :: log_data) ''exception_thrown'' = None"
    by simp_all
  have r1: "?r1 = (Inr (), snd ?r1)" and r2: "?r2 = (Inr (), snd ?r2)"
    and r3: "?r3 = (Inr (), snd ?r3)"
    by (simp_all add: response_eval)
  from success_inferred [OF refl none r1]
  have "last (log_queue (snd ?r1)) ''is_success'' = Some (PBool True)"
    by auto
  moreover
  from success_inferred [OF refl none r2]
  have "last (log_queue (snd ?r2)) ''is_success'' = Some (PBool False)"
    by auto
  moreover
  from success_inferred [OF refl none r3] obtain entry thrown
    where queue: "snd ?r3 = ?s\<lparr>log_queue := log_queue ?s @ [entry],
                   unfinished_tasks := unfinished_tasks ?s + 1,
                   submitted := submitted ?s @ [entry]\<rparr>"
      and stored: "entry ''exception_thrown'' = Some thrown"
      and flag: "\<forall>n. PInt 200 = PInt n \<longrightarrow>
               entry ''is_success'' = Some (PBool (n = 200 \<and> \<not> truthy thrown))"
      and footer: "\<forall>kvs footer. truthy ?footer
                 \<and> (case ?footer of PStr p \<Rightarrow> sample_loads p | _ \<Rightarrow> Inr ?footer)
                      = Inr (PDict kvs)
                 \<and> map_of kvs (PStr ''EnvelopeBody'')
                     \<in> {None, Some (PList []), Some (PStr []), Some (PDict [])}
                 \<and> map_of kvs (PStr ''EnvelopeFooter'') = Some (PDict footer) \<longrightarrow>
               thrown
                 = (case map_of footer (PStr ''ExceptionThrown'') of
                      None \<Rightarrow> PBool False
                    | Some v \<Rightarrow> v)"
    by (elim exE conjE) (rule that; assumption)
  from footer [rule_format, of "[(PStr ''EnvelopeFooter'', PDict [(PStr ''ExceptionThrown'', PBool True)])]"
      "[(PStr ''ExceptionThrown'', PBool True)]"]
  have "thrown = PBool True"
    by (simp add: sample_loads_def)
  with queue stored flag
  have "last (log_queue (snd ?r3)) ''exception_thrown'' = Some (PBool True)
      \<and> last (log_queue (snd ?r3)) ''is_success'' = Some (PBool False)"
    by simp
  ultimately show ?thesis
    by blast
qed

text \<open>
  Claim C8. The response builder raises only when its payload is a dictionary that
  \<^verbatim>\<open>json.dumps\<close> cannot serialise, which happens after the extraction; the
  extraction of the message never makes it raise. For every payload that is not a
  dictionary, so for every string, malformed JSON or not, the builder returns. When the
  extraction fails (its \<^verbatim>\<open>try\<close> body raises) and the builder submits its record,
  the record has no response message: the field \<^verbatim>\<open>response_message\<close> holds
  \<^verbatim>\<open>None\<close>, unless the caller passed a keyword argument of that name, which is
  then stored as it is.
\<close>

theorem extraction_never_raises:
  fixes loads :: json_loads and dumps :: json_dumps
  shows "(\<forall>e s'. log_excalibur_response loads dumps api_endpoint client_id http_status_code
             response_time response_payload is_success_arg exception_thrown_arg
             exception_message_arg error_source ssl_verified retry_count kwargs s = (Inl e, s')
           \<longrightarrow> truthy response_payload \<and> is_dict response_payload
               \<and> dumps response_payload = Inl e)
     \<and> (\<not> is_dict response_payload \<longrightarrow>
           fst (log_excalibur_response loads dumps api_endpoint client_id http_status_code
             response_time response_payload is_success_arg exception_thrown_arg
             exception_message_arg error_source ssl_verified retry_count kwargs s) = Inr ())
     \<and> (\<forall>x s'. extract_message_try loads response_payload exception_thrown_arg
                  exception_message_arg = Inl x
           \<and> log_excalibur_response loads dumps api_endpoint client_id http_status_code
             response_time response_payload is_success_arg exception_thrown_arg
             exception_message_arg error_source ssl_verified retry_count kwargs s = (Inr (), s')
           \<longrightarrow> (\<exists>entry.
                 s' = s\<lparr>log_queue := log_queue s @ [entry],
                         unfinished_tasks := unfinished_tasks s + 1,
                         submitted := submitted s @ [entry]\<rparr>
               \<and> entry ''response_message''
                   = Some (case kwargs ''response_message'' of None \<Rightarrow> PNone | Some v \<Rightarrow> v)))"
proof -
  obtain m t em where ex:
    "extract_message loads response_payload exception_thrown_arg exception_message_arg = (m, t, em)"
    by (cases "extract_message loads response_payload exception_thrown_arg exception_message_arg")
  have failed: "m = PNone"
    if "extract_message_try loads response_payload exception_thrown_arg exception_message_arg
          = Inl x" for x
    using ex extract_message_failed [OF that] by simp
  from ex show ?thesis
  proof (cases rule: log_excalibur_response_cases [where dumps = dumps and kwargs = kwargs
        and s = s and api_endpoint = api_endpoint and client_id = client_id
        and http_status_code = http_status_code and response_time = response_time
        and is_success_arg = is_success_arg and error_source = error_source
        and ssl_verified = ssl_verified and retry_count = retry_count])
    case (raises e)
    then show ?thesis by simp
  next
    case (submits entry)
    with failed show ?thesis
      by (auto intro!: exI [of _ entry])
  qed
qed

text \<open>A malformed JSON string: parsing raises, the builder returns, the message is \<^verbatim>\<open>None\<close>.\<close>

theorem extraction_never_raises_witness:
  "extract_message_try sample_loads (PStr ''{bad'') (PBool False) PNone = Inl JSONDecodeError
   \<and> fst (log_excalibur_response sample_loads sample_dumps (PStr ''/api/import'')
          (PStr ''823842000801419'') (PInt 200) (PInt 1234) (PStr ''{bad'') PNone (PBool False)
          PNone PNone (PBool True) (PInt 0) Map.empty (init (sample_world []))) = Inr ()
   \<and> last (log_queue (snd (log_excalibur_response sample_loads sample_dumps (PStr ''/api/import'')
          (PStr ''823842000801419'') (PInt 200) (PInt 1234) (PStr ''{bad'') PNone (PBool False)
          PNone PNone (PBool True) (PInt 0) Map.empty (init (sample_world [])))))
        ''response_message'' = Some PNone"
proof -
  have bad: "extract_message_try sample_loads (PStr ''{bad'') (PBool False) PNone
      = Inl JSONDecodeError"
    by (simp add: response_eval)
  note inst = extraction_never_raises [of sample_loads sample_dumps "PStr ''/api/import''"
      "PStr ''823842000801419''" "PInt 200" "PInt 1234" "PStr ''{bad''" PNone "PBool False"
      PNone PNone "PBool True" "PInt 0" Map.empty "init (sample_world [])"]
  from inst have ok: "fst (log_excalibur_response sample_loads sample_dumps (PStr ''/api/import'')
          (PStr ''823842000801419'') (PInt 200) (PInt 1234) (PStr ''{bad'') PNone (PBool False)
          PNone PNone (PBool True) (PInt 0) Map.empty (init (sample_world []))) = Inr ()"
    by simp
  then have run: "log_excalibur_response sample_loads sample_dumps (PStr ''/api/import'')
          (PStr ''823842000801419'') (PInt 200) (PInt 1234) (PStr ''{bad'') PNone (PBool False)
          PNone PNone (PBool True) (PInt 0) Map.empty (init (sample_world []))
      = (Inr (), snd (log_excalibur_response sample_loads sample_dumps (PStr ''/api/import'')
          (PStr ''823842000801419'') (PInt 200) (PInt 1234) (PStr ''{bad'') PNone (PBool False)
          PNone PNone (PBool True) (PInt 0) Map.empty (init (sample_world []))))"
    by (metis prod.collapse)
  from inst bad run have "last (log_queue (snd (log_excalibur_response sample_loads sample_dumps
          (PStr ''/api/import'')
          (PStr ''823842000801419'') (PInt 200) (PInt 1234) (PStr ''{bad'') PNone (PBool False)
          PNone PNone (PBool True) (PInt 0) Map.empty (init (sample_world [])))))
        ''response_message'' = Some PNone"
    by (elim conjE allE [of _ JSONDecodeError] allE [of _ "snd (log_excalibur_response sample_loads
          sample_dumps (PStr ''/api/import'')
          (PStr ''823842000801419'') (PInt 200) (PInt 1234) (PStr ''{bad'') PNone (PBool False)
          PNone PNone (PBool True) (PInt 0) Map.empty (init (sample_world [])))"]) auto
  with bad ok show ?thesis
    by blast
qed

section \<open>Properties of the shutdown\<close>

lemma clock_print: "preserves (\<lambda>w. clock w = c) (print l)"
  by (simp add: preserves_def print_def)

lemma clock_db_call: "preserves (\<lambda>w. clock w = c) db_call"
  by (auto simp: preserves_def db_call_def split: list.splits)

lemma clock_select_id: "preserves (\<lambda>w. clock w = c) (select_id tbl v)"
  unfolding select_id_def
  by (intro preserves_and_then clock_db_call) (auto simp: preserves_def raise_def split: pyval.splits)

lemma clock_insert_ErrorSource: "preserves (\<lambda>w. clock w = c) (insert_ErrorSource v)"
  unfolding insert_ErrorSource_def
  by (intro preserves_and_then clock_db_call) (auto simp: preserves_def raise_def split: pyval.splits)

lemma clock_insert_FileType: "preserves (\<lambda>w. clock w = c) (insert_FileType v)"
  unfolding insert_FileType_def
  by (intro preserves_and_then clock_db_call) (auto simp: preserves_def raise_def split: pyval.splits)

lemma clock_insert_APICall: "preserves (\<lambda>w. clock w = c) (insert_APICall params)"
  unfolding insert_APICall_def
  by (intro preserves_and_then clock_db_call) (auto simp: preserves_def)

lemma clock_commit: "preserves (\<lambda>w. clock w = c) commit"
  unfolding commit_def
  by (intro preserves_and_then clock_db_call) (auto simp: preserves_def)

lemmas clock_intros = preserves_and_then preserves_return preserves_raise clock_print
  preserves_now clock_select_id clock_insert_ErrorSource clock_insert_FileType
  clock_insert_APICall clock_commit

lemma handler_preserves:
  assumes "preserves P m" and "\<And>l. preserves P (print l)"
  shows "preserves P (\<lambda>w. case m w of
            (Inl e, w') \<Rightarrow> and_then (print (mk e)) (\<lambda>_. return None) w'
          | (Inr r, w') \<Rightarrow> (Inr r, w'))"
  unfolding preserves_def
proof (intro allI impI)
  fix w
  assume "P w"
  obtain r w' where m: "m w = (r, w')"
    by (cases "m w")
  with assms(1) \<open>P w\<close> have "P w'"
    by (auto dest: preservesD)
  with assms(2) have "P (snd (print (mk e) w'))" for e
    by (simp add: preserves_def)
  then have handled: "P (snd (and_then (print (mk e)) (\<lambda>_. return None) w'))" for e
    by (simp add: and_then_def print_def return_def)
  show "P (snd (case m w of
            (Inl e, w') \<Rightarrow> and_then (print (mk e)) (\<lambda>_. return None) w'
          | (Inr r, w') \<Rightarrow> (Inr r, w')))"
    using m \<open>P w'\<close> handled by (cases r) simp_all
qed

lemma guard_preserves:
  assumes "preserves P m"
  shows "preserves P (\<lambda>w. if g then (Inr None, w) else m w)"
  using assms by (simp add: preserves_def)

lemma clock_get_http_method_id: "preserves (\<lambda>w. clock w = c) (get_http_method_id v)"
proof -
  have t: "preserves (\<lambda>w. clock w = c) (get_http_method_id_try v)"
    unfolding get_http_method_id_try_def
    by (intro clock_intros) (auto intro!: clock_intros split: option.splits)
  have "get_http_method_id v = (\<lambda>w. if \<not> truthy v then (Inr None, w) else
      (case get_http_method_id_try v w of
         (Inl e, w') \<Rightarrow> and_then (print (Error_getting_HttpMethodID v e)) (\<lambda>_. return None) w'
       | (Inr r, w') \<Rightarrow> (Inr r, w')))"
    by (rule ext) (simp add: get_http_method_id_def)
  then show ?thesis
    using guard_preserves [OF handler_preserves [OF t clock_print]] by simp
qed

lemma clock_get_http_status_code_id: "preserves (\<lambda>w. clock w = c) (get_http_status_code_id v)"
  by (auto simp: preserves_def get_http_status_code_id_def get_http_status_code_id_with_def
      get_http_status_code_id_try_with_def io_defs split: sum.splits)

lemma clock_get_error_source_id: "preserves (\<lambda>w. clock w = c) (get_error_source_id v)"
proof -
  have t: "preserves (\<lambda>w. clock w = c) (get_error_source_id_try v)"
    unfolding get_error_source_id_try_def
    by (intro clock_intros) (auto intro!: clock_intros split: option.splits)
  have "get_error_source_id v = (\<lambda>w. if \<not> truthy v then (Inr None, w) else
      (case get_error_source_id_try v w of
         (Inl e, w') \<Rightarrow> and_then (print (Error_getting_ErrorSourceID v e)) (\<lambda>_. return None) w'
       | (Inr r, w') \<Rightarrow> (Inr r, w')))"
    by (rule ext) (simp add: get_error_source_id_def)
  then show ?thesis
    using guard_preserves [OF handler_preserves [OF t clock_print]] by simp
qed

lemma clock_get_file_type_id: "preserves (\<lambda>w. clock w = c) (get_file_type_id v)"
proof -
  have t: "preserves (\<lambda>w. clock w = c) (get_file_type_id_try v)"
    unfolding get_file_type_id_try_def
    by (intro clock_intros) (auto intro!: clock_intros split: option.splits)
  have "get_file_type_id v = (\<lambda>w. if \<not> truthy v then (Inr None, w) else
      (case get_file_type_id_try v w of
         (Inl e, w') \<Rightarrow> and_then (print (Error_getting_FileTypeID v e)) (\<lambda>_. return None) w'
       | (Inr r, w') \<Rightarrow> (Inr r, w')))"
    by (rule ext) (simp add: get_file_type_id_def)
  then show ?thesis
    using guard_preserves [OF handler_preserves [OF t clock_print]] by simp
qed

lemma clock_get_environment_id: "preserves (\<lambda>w. clock w = c) (get_environment_id v)"
proof -
  have t: "preserves (\<lambda>w. clock w = c) (get_environment_id_try v')" for v'
    unfolding get_environment_id_try_def
    by (intro clock_intros) (auto intro!: clock_intros split: option.splits)
  have "get_environment_id v = (\<lambda>w.
      (case get_environment_id_try (if \<not> truthy v then PStr ''Dev'' else v) w of
         (Inl e, w') \<Rightarrow>
           and_then (print (Error_getting_EnvironmentID (if \<not> truthy v then PStr ''Dev'' else v) e))
             (\<lambda>_. return None) w'
       | (Inr r, w') \<Rightarrow> (Inr r, w')))"
    by (rule ext) (simp add: get_environment_id_def Let_def)
  then show ?thesis
    using handler_preserves [OF t clock_print] by simp
qed

lemma clock_insert_log_params: "preserves (\<lambda>w. clock w = c) (insert_log_params log_data)"
  unfolding insert_log_params_def Let_def
  by (intro preserves_and_then clock_get_http_method_id clock_get_http_status_code_id
      clock_get_error_source_id clock_get_file_type_id clock_get_environment_id
      preserves_now preserves_return)
     (auto intro: preserves_return preserves_raise split: sum.splits)

lemma clock_insert_log_try: "preserves (\<lambda>w. clock w = c) (insert_log_try log_data)"
  unfolding insert_log_try_def
  by (intro preserves_and_then clock_insert_log_params clock_insert_APICall clock_commit)

lemma clock_insert_log: "clock (snd (insert_log log_data w)) = clock w"
proof -
  obtain r0 w0 where c: "db_call w = (r0, w0)"
    by (cases "db_call w")
  then have w0: "clock w0 = clock w"
    using preservesD [OF clock_db_call refl c] by simp
  obtain r1 w1 where b: "insert_log_try log_data (w0\<lparr>txn := db w0\<rparr>) = (r1, w1)"
    by (cases "insert_log_try log_data (w0\<lparr>txn := db w0\<rparr>)")
  have w1: "clock w1 = clock w"
    using preservesD [OF clock_insert_log_try _ b, of "clock w"] w0 by simp
  show ?thesis
    using c b w0 w1
    by (cases r0; cases r1) (simp_all add: insert_log_def with_connection_def print_def)
qed

lemma invariant_init: "invariant (init w)"
  by (simp add: invariant_def init_def past_queue_join_def past_set_flag_def)

lemma prefix_append3: "prefix xs (a @ b @ c) \<Longrightarrow> prefix xs (a @ b @ c @ d)"
  using prefix_prefix [of xs "a @ b @ c" d] by simp

lemma invariant_log_api_call: "invariant s \<Longrightarrow> invariant (log_api_call log_data s)"
  by (auto simp: invariant_def log_api_call_def Let_def intro: prefix_append3)

lemma invariant_worker_step:
  assumes "invariant s" and "worker_step s = Some s'"
  shows "invariant s'"
proof (cases "worker s")
  case W_while
  with assms show ?thesis
    by (auto simp: invariant_def worker_step_def split: if_splits)
next
  case (W_get deadline)
  with assms show ?thesis
    by (auto simp: invariant_def worker_step_def split: if_splits list.splits)
next
  case (W_insert log_data)
  obtain w' where "insert_log log_data (ext s) = (Inr (), w')"
    using insert_log_total by blast
  with assms W_insert show ?thesis
    by (auto simp: invariant_def worker_step_def)
next
  case (W_task_done log_data)
  with assms show ?thesis
    by (auto simp: invariant_def worker_step_def split: if_splits)
next
  case W_exited
  with assms show ?thesis
    by (simp add: worker_step_def)
qed

lemma invariant_shutdown_step:
  assumes "invariant s" and "shutdown_step s = Some s'"
  shows "invariant s'"
proof (cases "shutdown_at s")
  case S_not_called
  with assms show ?thesis
    by (auto simp: invariant_def shutdown_step_def past_queue_join_def past_set_flag_def)
next
  case S_queue_join
  with assms show ?thesis
    by (auto simp: invariant_def shutdown_step_def past_queue_join_def past_set_flag_def
        split: if_splits)
next
  case S_set_flag
  with assms show ?thesis
    by (auto simp: invariant_def shutdown_step_def past_queue_join_def past_set_flag_def)
next
  case (S_thread_join deadline)
  with assms show ?thesis
    by (auto simp: invariant_def shutdown_step_def past_queue_join_def past_set_flag_def
        split: if_splits)
next
  case S_returned
  with assms show ?thesis
    by (simp add: shutdown_step_def)
qed

lemma invariant_step:
  assumes "invariant s" and "step e s = Some s'"
  shows "invariant s'"
proof (cases e)
  case (Submit log_data)
  with assms(2) have "s' = log_api_call log_data s"
    by simp
  with assms(1) show ?thesis
    by (simp add: invariant_log_api_call)
next
  case Worker
  with assms(2) have "worker_step s = Some s'"
    by simp
  with assms(1) show ?thesis
    by (rule invariant_worker_step)
next
  case Shutdown
  with assms(2) have "shutdown_step s = Some s'"
    by simp
  with assms(1) show ?thesis
    by (rule invariant_shutdown_step)
next
  case Tick
  with assms(2) have "s' = s\<lparr>ext := (ext s)\<lparr>clock := clock (ext s) + 1\<rparr>\<rparr>"
    by simp
  with assms(1) show ?thesis
    by (auto simp: invariant_def)
qed

lemma invariant_run: "invariant s \<Longrightarrow> run es s = Some s' \<Longrightarrow> invariant s'"
proof (induction es arbitrary: s)
  case Nil
  then show ?case by simp
next
  case (Cons e es)
  from Cons.prems(2) obtain s1 where "step e s = Some s1" and "run es s1 = Some s'"
    by (auto split: option.splits)
  with Cons.IH [of s1] invariant_step [OF Cons.prems(1)] show ?case
    by blast
qed

lemma deadline_near_init: "deadline_near (init w)"
  by (simp add: deadline_near_def init_def)

lemma deadline_near_worker_step:
  assumes "deadline_near s" and "worker_step s = Some s'"
  shows "deadline_near s'"
proof -
  have "shutdown_at s' = shutdown_at s \<and> clock (ext s') = clock (ext s)"
  proof (cases "worker s")
    case (W_insert log_data)
    obtain r w' where i: "insert_log log_data (ext s) = (r, w')"
      by (cases "insert_log log_data (ext s)")
    then have "clock w' = clock (ext s)"
      using clock_insert_log [of log_data "ext s"] by simp
    with assms(2) W_insert i show ?thesis
      by (cases r) (auto simp: worker_step_def)
  qed (use assms(2) in \<open>auto simp: worker_step_def split: if_splits list.splits\<close>)
  with assms(1) show ?thesis
    by (simp add: deadline_near_def split: shutdown_pc.splits)
qed

lemma deadline_near_step:
  assumes "deadline_near s" and "step e s = Some s'"
  shows "deadline_near s'"
proof (cases e)
  case (Submit log_data)
  with assms(2) have "shutdown_at s' = shutdown_at s \<and> clock (ext s') = clock (ext s)"
    by (auto simp: log_api_call_def Let_def)
  with assms(1) show ?thesis
    by (simp add: deadline_near_def split: shutdown_pc.splits)
next
  case Worker
  with assms show ?thesis
    by (auto intro: deadline_near_worker_step)
next
  case Shutdown
  with assms show ?thesis
    by (auto simp: deadline_near_def shutdown_step_def split: shutdown_pc.splits if_splits)
next
  case Tick
  with assms show ?thesis
    by (auto simp: deadline_near_def split: shutdown_pc.splits)
qed

lemma deadline_near_run: "deadline_near s \<Longrightarrow> run es s = Some s' \<Longrightarrow> deadline_near s'"
proof (induction es arbitrary: s)
  case Nil
  then show ?case by simp
next
  case (Cons e es)
  from Cons.prems(2) obtain s1 where "step e s = Some s1" and "run es s1 = Some s'"
    by (auto split: option.splits)
  with Cons.IH [of s1] deadline_near_step [OF Cons.prems(1)] show ?case
    by blast
qed

lemma step_at_shutdown:
  assumes "shutdown_at s \<noteq> S_not_called" and "step e s = Some s'"
  shows "shutdown_at s' \<noteq> S_not_called \<and> at_shutdown s' = at_shutdown s"
proof (cases e)
  case (Submit log_data)
  with assms show ?thesis
    by (auto simp: log_api_call_def Let_def)
next
  case Worker
  with assms show ?thesis
    by (auto simp: worker_step_def split: worker_pc.splits if_splits list.splits prod.splits
        sum.splits)
next
  case Shutdown
  with assms show ?thesis
    by (auto simp: shutdown_step_def split: shutdown_pc.splits if_splits)
next
  case Tick
  with assms show ?thesis
    by auto
qed

lemma run_at_shutdown:
  "shutdown_at s \<noteq> S_not_called \<Longrightarrow> run es s = Some s' \<Longrightarrow> at_shutdown s' = at_shutdown s"
proof (induction es arbitrary: s)
  case Nil
  then show ?case by simp
next
  case (Cons e es)
  from Cons.prems(2) obtain s1 where "step e s = Some s1" and "run es s1 = Some s'"
    by (auto split: option.splits)
  with Cons.IH [of s1] step_at_shutdown [OF Cons.prems(1)] show ?case
    by metis
qed

text \<open>
  Claim C1. Take any schedule of the threads in which \<^verbatim>\<open>shutdown()\<close> is called
  after the events \<open>pre\<close> and which goes on with the events \<open>post\<close>. Once
  \<^verbatim>\<open>shutdown()\<close> is past \<^verbatim>\<open>log_queue.join()\<close>, and so when it has returned,
  every record submitted before the call has been taken from the queue and marked
  done, in the order of submission. While a record waits or is in the hands of the
  worker, \<^verbatim>\<open>shutdown()\<close> cannot leave \<^verbatim>\<open>log_queue.join()\<close>; when it does leave,
  the queue is empty, every record submitted so far is marked done and the flag is
  still up. The flag \<^verbatim>\<open>is_running\<close> goes down only after that, and then
  \<^verbatim>\<open>shutdown()\<close> joins the worker thread with a wait that ends 5 seconds later:
  while the worker thread has not ended and that time is not reached,
  \<^verbatim>\<open>shutdown()\<close> waits and cannot return; it returns as soon as the worker thread
  has ended; the time is never more than 5 seconds away; and once the time is reached,
  \<^verbatim>\<open>shutdown()\<close> returns whatever the worker thread does.
\<close>

theorem shutdown_drains_queue:
  assumes "run pre (init w) = Some s0" and "shutdown_at s0 = S_not_called"
    and "run (Shutdown # post) s0 = Some s"
  shows "(past_queue_join (shutdown_at s) \<longrightarrow> prefix (submitted s0) (completed s))
     \<and> (\<not> is_running s \<longrightarrow>
           past_queue_join (shutdown_at s) \<and> prefix (submitted s0) (completed s))
     \<and> (shutdown_at s = S_returned \<longrightarrow>
           \<not> is_running s \<and> prefix (submitted s0) (completed s))
     \<and> (shutdown_at s = S_queue_join \<and> (log_queue s \<noteq> [] \<or> in_flight (worker s) \<noteq> []) \<longrightarrow>
           step Shutdown s = None)
     \<and> (shutdown_at s = S_queue_join \<longrightarrow>
           (\<forall>s'. step Shutdown s = Some s' \<longrightarrow>
              log_queue s = [] \<and> in_flight (worker s) = [] \<and> completed s = submitted s
              \<and> is_running s' \<and> shutdown_at s' = S_set_flag))
     \<and> (shutdown_at s = S_set_flag \<longrightarrow>
           step Shutdown s
             = Some (s\<lparr>is_running := False, shutdown_at := S_thread_join (clock (ext s) + 5)\<rparr>))
     \<and> (\<forall>deadline. shutdown_at s = S_thread_join deadline \<and> deadline \<le> clock (ext s) \<longrightarrow>
           (\<exists>s'. step Shutdown s = Some s' \<and> shutdown_at s' = S_returned))
     \<and> (\<forall>deadline. shutdown_at s = S_thread_join deadline \<and> worker s \<noteq> W_exited
             \<and> clock (ext s) < deadline \<longrightarrow>
           step Shutdown s = None)
     \<and> (\<forall>deadline. shutdown_at s = S_thread_join deadline \<and> worker s = W_exited \<longrightarrow>
           (\<exists>s'. step Shutdown s = Some s' \<and> shutdown_at s' = S_returned))
     \<and> (\<forall>deadline. shutdown_at s = S_thread_join deadline \<longrightarrow> deadline \<le> clock (ext s) + 5)"
proof -
  have inv0: "invariant s0"
    using invariant_run [OF invariant_init assms(1)] .
  from assms(3) obtain s1 where s1: "step Shutdown s0 = Some s1" and rest: "run post s1 = Some s"
    by (auto split: option.splits)
  from s1 assms(2) have called: "shutdown_at s1 \<noteq> S_not_called" "at_shutdown s1 = submitted s0"
    by (auto simp: shutdown_step_def)
  have at: "at_shutdown s = submitted s0"
    using run_at_shutdown [OF called(1) rest] called(2) by simp
  have inv: "invariant s"
    using invariant_run [OF invariant_step [OF inv0 s1] rest] .
  have near: "deadline_near s"
    using deadline_near_run [OF deadline_near_run [OF deadline_near_init assms(1)] assms(3)] .
  have drained: "prefix (submitted s0) (completed s)" if "past_queue_join (shutdown_at s)"
    using inv that at by (simp add: invariant_def)
  have flag: "past_set_flag (shutdown_at s)" if "\<not> is_running s"
    using inv that by (simp add: invariant_def)
  have past: "past_queue_join pc" if "past_set_flag pc" for pc
    using that by (cases pc) (simp_all add: past_queue_join_def past_set_flag_def)
  have count: "unfinished_tasks s = length (in_flight (worker s)) + length (log_queue s)"
    and hist: "submitted s = completed s @ in_flight (worker s) @ log_queue s"
    and run_flag: "is_running s = (\<not> past_set_flag (shutdown_at s))"
    using inv by (simp_all add: invariant_def)
  show ?thesis
  proof (intro conjI impI allI)
    assume "past_queue_join (shutdown_at s)"
    then show "prefix (submitted s0) (completed s)" by (rule drained)
  next
    assume "\<not> is_running s"
    then show "past_queue_join (shutdown_at s)" by (intro past flag)
  next
    assume "\<not> is_running s"
    then show "prefix (submitted s0) (completed s)" by (intro drained past flag)
  next
    assume "shutdown_at s = S_returned"
    then show "\<not> is_running s" using run_flag by (simp add: past_set_flag_def)
  next
    assume "shutdown_at s = S_returned"
    then show "prefix (submitted s0) (completed s)"
      by (intro drained) (simp add: past_queue_join_def)
  next
    assume "shutdown_at s = S_queue_join \<and> (log_queue s \<noteq> [] \<or> in_flight (worker s) \<noteq> [])"
    then show "step Shutdown s = None"
      using count by (auto simp: shutdown_step_def)
  next
    fix s'
    assume a: "shutdown_at s = S_queue_join" "step Shutdown s = Some s'"
    then have z: "unfinished_tasks s = 0" and s': "s' = s\<lparr>shutdown_at := S_set_flag\<rparr>"
      by (auto simp: shutdown_step_def split: if_splits)
    from z count show "log_queue s = []" by simp
    from z count show "in_flight (worker s) = []" by simp
    from z count hist show "completed s = submitted s" by simp
    from s' run_flag a(1) show "is_running s'" by (simp add: past_set_flag_def)
    from s' show "shutdown_at s' = S_set_flag" by simp
  next
    assume "shutdown_at s = S_set_flag"
    then show "step Shutdown s
             = Some (s\<lparr>is_running := False, shutdown_at := S_thread_join (clock (ext s) + 5)\<rparr>)"
      by (simp add: shutdown_step_def)
  next
    fix deadline
    assume "shutdown_at s = S_thread_join deadline \<and> deadline \<le> clock (ext s)"
    then show "\<exists>s'. step Shutdown s = Some s' \<and> shutdown_at s' = S_returned"
      by (simp add: shutdown_step_def)
  next
    fix deadline
    assume "shutdown_at s = S_thread_join deadline \<and> worker s \<noteq> W_exited
             \<and> clock (ext s) < deadline"
    then show "step Shutdown s = None"
      by (cases "worker s") (simp_all add: shutdown_step_def worker_exited_def)
  next
    fix deadline
    assume "shutdown_at s = S_thread_join deadline \<and> worker s = W_exited"
    then show "\<exists>s'. step Shutdown s = Some s' \<and> shutdown_at s' = S_returned"
      by (simp add: shutdown_step_def worker_exited_def)
  next
    fix deadline
    assume "shutdown_at s = S_thread_join deadline"
    with near show "deadline \<le> clock (ext s) + 5"
      by (simp add: deadline_near_def)
  qed
qed

lemmas thread_eval = worker_step_def shutdown_step_def worker_exited_def log_api_call_def init_def
  sample_pre_def sample_post_def sample_stalled_def sample_waiting_def

text \<open>
  Three schedules on the sample database. In the first the record submitted before the
  call is marked done when \<^verbatim>\<open>shutdown()\<close> returns, which it does after the worker
  thread has ended. In the second \<^verbatim>\<open>shutdown()\<close> has just lowered the flag, the
  worker thread is still inside its loop and the five seconds have not passed:
  \<^verbatim>\<open>shutdown()\<close> waits. In the third the worker is never scheduled again; five
  seconds after the flag went down \<^verbatim>\<open>shutdown()\<close> returns all the same.
\<close>

theorem shutdown_drains_queue_witness:
  "(\<exists>s0 s. run sample_pre (init (sample_world [])) = Some s0
       \<and> shutdown_at s0 = S_not_called
       \<and> submitted s0 = [sample_bare(''created_at'' \<mapsto> PDateTime 0)]
       \<and> run (Shutdown # sample_post) s0 = Some s
       \<and> shutdown_at s = S_returned
       \<and> \<not> is_running s
       \<and> prefix (submitted s0) (completed s))
   \<and> (\<exists>s. run (Shutdown # sample_waiting) (init (sample_world [])) = Some s
       \<and> shutdown_at s = S_thread_join 5
       \<and> clock (ext s) = 0
       \<and> worker s = W_while
       \<and> step Shutdown s = None)
   \<and> (\<exists>s s'. run (Shutdown # sample_stalled) (init (sample_world [])) = Some s
       \<and> shutdown_at s = S_thread_join 5
       \<and> clock (ext s) = 5
       \<and> worker s = W_while
       \<and> step Shutdown s = Some s'
       \<and> shutdown_at s' = S_returned)"
proof -
  have "\<exists>s0. run sample_pre (init (sample_world [])) = Some s0
       \<and> shutdown_at s0 = S_not_called
       \<and> submitted s0 = [sample_bare(''created_at'' \<mapsto> PDateTime 0)]
       \<and> (\<exists>s. run (Shutdown # sample_post) s0 = Some s \<and> shutdown_at s = S_returned)"
    by (simp add: thread_eval eval_defs sample_bare_def)
  then obtain s0 s where pre: "run sample_pre (init (sample_world [])) = Some s0"
    and idle: "shutdown_at s0 = S_not_called"
    and sub: "submitted s0 = [sample_bare(''created_at'' \<mapsto> PDateTime 0)]"
    and post: "run (Shutdown # sample_post) s0 = Some s"
    and ret: "shutdown_at s = S_returned"
    by blast
  from shutdown_drains_queue [OF pre idle post] ret
  have "\<not> is_running s \<and> prefix (submitted s0) (completed s)"
    by simp
  with pre idle sub post ret have first: "\<exists>s0 s. run sample_pre (init (sample_world [])) = Some s0
       \<and> shutdown_at s0 = S_not_called
       \<and> submitted s0 = [sample_bare(''created_at'' \<mapsto> PDateTime 0)]
       \<and> run (Shutdown # sample_post) s0 = Some s
       \<and> shutdown_at s = S_returned
       \<and> \<not> is_running s
       \<and> prefix (submitted s0) (completed s)"
    by blast
  have start: "run [] (init (sample_world [])) = Some (init (sample_world []))"
    "shutdown_at (init (sample_world [])) = S_not_called"
    by (simp_all add: init_def)
  have "\<exists>s. run (Shutdown # sample_waiting) (init (sample_world [])) = Some s
       \<and> shutdown_at s = S_thread_join 5 \<and> clock (ext s) = 0 \<and> worker s = W_while"
    by (simp add: thread_eval sample_world_def)
  then obtain s2 where waiting: "run (Shutdown # sample_waiting) (init (sample_world [])) = Some s2"
    and at2: "shutdown_at s2 = S_thread_join 5" "clock (ext s2) = 0" "worker s2 = W_while"
    by blast
  from shutdown_drains_queue [OF start waiting] at2
  have "step Shutdown s2 = None"
    by simp
  with waiting at2
  have second: "\<exists>s. run (Shutdown # sample_waiting) (init (sample_world [])) = Some s
       \<and> shutdown_at s = S_thread_join 5
       \<and> clock (ext s) = 0
       \<and> worker s = W_while
       \<and> step Shutdown s = None"
    by blast
  have "\<exists>s. run (Shutdown # sample_stalled) (init (sample_world [])) = Some s
       \<and> shutdown_at s = S_thread_join 5 \<and> clock (ext s) = 5 \<and> worker s = W_while"
    by (simp add: thread_eval sample_world_def)
  then obtain s1 where stalled: "run (Shutdown # sample_stalled) (init (sample_world [])) = Some s1"
    and at: "shutdown_at s1 = S_thread_join 5" "clock (ext s1) = 5" "worker s1 = W_while"
    by blast
  from shutdown_drains_queue [OF start stalled] at
  obtain s' where "step Shutdown s1 = Some s'" "shutdown_at s' = S_returned"
    by auto
  with stalled at have "\<exists>s s'. run (Shutdown # sample_stalled) (init (sample_world [])) = Some s
       \<and> shutdown_at s = S_thread_join 5
       \<and> clock (ext s) = 5
       \<and> worker s = W_while
       \<and> step Shutdown s = Some s'
       \<and> shutdown_at s' = S_returned"
    by blast
  with first second show ?thesis
    by blast
qed

end
